theory Spec2Isabelle
  imports Main "HOL-Library.Word" "HOL-Library.Sublist"
begin

section \<open>The binding of RSA to the external cryptographic library\<close>

text \<open>
  The package \<^verbatim>\<open>crypto/internal/boring\<close> (file \<^verbatim>\<open>rsa.go\<close> and the helpers of
  \<^verbatim>\<open>boring.go\<close> that follow it in the same source file) calls the external library
  through cgo. The library is not part of the program: every foreign function is a
  field of the record \<open>libcrypto\<close> below, which gives the value the call returns, and
  every call the binding makes is logged as an \<open>event\<close>, in order. A Go function
  is embedded as a function that returns the list of its foreign calls together with what it
  returns.
\<close>

subsection \<open>Machine types, pointers, errors\<close>

type_synonym byte = "8 word"

text \<open>Go's \<^verbatim>\<open>int\<close> on the 64-bit Linux targets of the package; read with \<open>sint\<close>.\<close>
type_synonym go_int = "64 word"

text \<open>
  C's \<^verbatim>\<open>int\<close> (read with \<open>sint\<close>), \<^verbatim>\<open>unsigned int\<close> and \<^verbatim>\<open>size_t\<close>. The
  conversion \<^verbatim>\<open>C.int(x)\<close> of a Go \<^verbatim>\<open>int\<close> is \<open>scast\<close>: it keeps the low 32 bits.
\<close>
type_synonym C_int = "32 word"
type_synonym C_uint = "32 word"
type_synonym C_size_t = "64 word"

text \<open>A pointer to a foreign object is an address or \<^verbatim>\<open>nil\<close> (\<open>None\<close>).\<close>
type_synonym ptr = "nat option"

text \<open>
  Modelled from the spec: \<^verbatim>\<open>base\<close>, a helper of the package that is not among the
  sources. \<^verbatim>\<open>base(b)\<close> is the address of the first byte of the slice \<open>b\<close> (nil for an
  empty slice), through which "the external library's C-level" function reads or writes
  the slice. A pointer to bytes is the bytes it points to here, and nil is \<open>[]\<close>.
\<close>
definition base :: "byte list \<Rightarrow> byte list" where
  "base b = b"

text \<open>
  An \<^verbatim>\<open>error\<close> value: \<^verbatim>\<open>errors.New(msg)\<close>, or \<^verbatim>\<open>NewOpenSSLError(msg)\<close> (a
  constructor of the package that is not among the sources; it wraps the message with
  the library's error queue).
\<close>
datatype error = errors_New string | NewOpenSSLError string

text \<open>
  A Go call returns, panics (deferred calls still run), or the program is stopped by a
  signal raised inside the library (nothing runs afterwards).
\<close>
datatype 'a outcome = Return 'a | Panic string | Crash string

subsection \<open>Big integers across the boundary\<close>

text \<open>
  Modelled from the spec: \<^verbatim>\<open>math/big\<close>, whose \<^verbatim>\<open>Int.Bytes\<close> and \<^verbatim>\<open>Int.SetBytes\<close> are
  not among the sources. The binding "marshals big-integer key material across a
  foreign-function boundary" as a big-endian byte slice: \<^verbatim>\<open>x.Bytes()\<close> is the absolute
  value of \<open>x\<close> as a big-endian byte slice with no leading zero byte, and
  \<^verbatim>\<open>SetBytes(buf)\<close> reads \<open>buf\<close> as a big-endian unsigned integer.
\<close>
fun nat_to_bytes :: "nat \<Rightarrow> byte list" where
  "nat_to_bytes n = (if n = 0 then [] else nat_to_bytes (n div 256) @ [of_nat (n mod 256)])"

declare nat_to_bytes.simps [simp del]

definition bytes_to_nat :: "byte list \<Rightarrow> nat" where
  "bytes_to_nat bs = foldl (\<lambda>acc b. acc * 256 + unat b) 0 bs"

definition big_Int_Bytes :: "int \<Rightarrow> byte list" where
  "big_Int_Bytes x = nat_to_bytes (nat \<bar>x\<bar>)"

definition big_Int_SetBytes :: "byte list \<Rightarrow> int" where
  "big_Int_SetBytes buf = int (bytes_to_nat buf)"

text \<open>
  Modelled from the spec: the library's big numbers (\<^verbatim>\<open>GO_BIGNUM\<close>), which the binding
  only reaches through \<^verbatim>\<open>BN_bin2bn\<close>, \<^verbatim>\<open>BN_num_bytes\<close> and \<^verbatim>\<open>BN_bn2bin\<close>. A big number
  is its minimal big-endian byte representation: \<^verbatim>\<open>BN_bin2bn\<close> drops the leading zero
  bytes of its input, \<^verbatim>\<open>BN_num_bytes\<close> is the number of bytes, and \<^verbatim>\<open>BN_bn2bin\<close> writes
  the bytes at the start of the buffer it is given and returns how many it wrote. The
  byte count is an unbounded integer here, and calls of these three functions are not
  logged.
\<close>
type_synonym GO_BIGNUM = "byte list"

definition BN_bin2bn :: "byte list \<Rightarrow> nat \<Rightarrow> GO_BIGNUM option" where
  "BN_bin2bn raw len = Some (dropWhile (\<lambda>b. b = 0) (take len raw))"

definition BN_num_bytes :: "GO_BIGNUM \<Rightarrow> nat" where
  "BN_num_bytes bn = length bn"

definition BN_bn2bin :: "GO_BIGNUM \<Rightarrow> byte list \<Rightarrow> byte list \<times> nat" where
  "BN_bn2bin bn buf = (bn @ drop (length bn) buf, length bn)"

text \<open>
  \<^verbatim>\<open>bigToBN\<close>: \<^verbatim>\<open>x.Bytes()\<close> dereferences \<open>x\<close>, so a nil \<open>x\<close> panics.
\<close>
definition bigToBN :: "int option \<Rightarrow> GO_BIGNUM option outcome" where
  "bigToBN x =
     (case x of
        None \<Rightarrow> Panic ''invalid memory address or nil pointer dereference''
      | Some v \<Rightarrow>
          (let raw = big_Int_Bytes v
           in Return (BN_bin2bn (base raw) (length raw))))"

text \<open>
  \<^verbatim>\<open>bnToBig\<close>: the library reads through \<open>bn\<close>, so a nil \<open>bn\<close> stops the program;
  \<^verbatim>\<open>raw[:n]\<close> panics when \<open>n\<close> exceeds the length of \<open>raw\<close>. The result is a fresh,
  non-nil \<^verbatim>\<open>*big.Int\<close>.
\<close>
definition bnToBig :: "GO_BIGNUM option \<Rightarrow> int option outcome" where
  "bnToBig bn =
     (case bn of
        None \<Rightarrow> Crash ''signal SIGSEGV: segmentation violation''
      | Some b \<Rightarrow>
          (let raw = replicate (BN_num_bytes b) (0::byte);
               (raw', n) = BN_bn2bin b (base raw)
           in if n > length raw' then Panic ''slice bounds out of range''
              else Return (Some (big_Int_SetBytes (take n raw')))))"

text \<open>Sequencing of calls that may panic.\<close>
definition and_then :: "'a outcome \<Rightarrow> ('a \<Rightarrow> 'b outcome) \<Rightarrow> 'b outcome" where
  "and_then r f = (case r of Return v \<Rightarrow> f v | Panic m \<Rightarrow> Panic m | Crash m \<Rightarrow> Crash m)"

subsection \<open>The foreign library and the calls made to it\<close>

text \<open>
  What each foreign function returns, as a function of its arguments. The names are
  those of \<^verbatim>\<open>goboringcrypto.h\<close> without the prefix \<^verbatim>\<open>_goboringcrypto_\<close>. A function
  that fills a buffer returns the bytes it writes; one that also sets \<^verbatim>\<open>*outLen\<close>
  returns the new length as well. \<^verbatim>\<open>RSA_size\<close> is the size of the modulus in bytes, which
  the library never reports as negative.
\<close>
record libcrypto =
  C_RSA_new :: ptr
  C_RSA_generate_key_fips :: "ptr \<Rightarrow> C_int \<Rightarrow> C_int"
  C_RSA_get0_key :: "ptr \<Rightarrow> GO_BIGNUM option \<times> GO_BIGNUM option \<times> GO_BIGNUM option"
  C_RSA_get0_factors :: "ptr \<Rightarrow> GO_BIGNUM option \<times> GO_BIGNUM option"
  C_RSA_get0_crt_params :: "ptr \<Rightarrow> GO_BIGNUM option \<times> GO_BIGNUM option \<times> GO_BIGNUM option"
  C_RSA_size :: "ptr \<Rightarrow> nat"
  C_EVP_PKEY_new :: ptr
  C_EVP_PKEY_set1_RSA :: "ptr \<Rightarrow> ptr \<Rightarrow> C_int"
  C_EVP_PKEY_CTX_new :: "ptr \<Rightarrow> ptr"
  C_EVP_PKEY_decrypt_init :: "ptr \<Rightarrow> C_int"
  C_EVP_PKEY_encrypt_init :: "ptr \<Rightarrow> C_int"
  C_EVP_PKEY_CTX_set_rsa_padding :: "ptr \<Rightarrow> C_int \<Rightarrow> C_int"
  C_EVP_PKEY_CTX_set_rsa_oaep_md :: "ptr \<Rightarrow> ptr \<Rightarrow> C_int"
  C_malloc :: "C_size_t \<Rightarrow> ptr"
  C_EVP_PKEY_CTX_set0_rsa_oaep_label :: "ptr \<Rightarrow> ptr \<Rightarrow> byte list \<Rightarrow> C_size_t \<Rightarrow> C_int"
  C_EVP_PKEY_CTX_set_rsa_pss_saltlen :: "ptr \<Rightarrow> C_int \<Rightarrow> C_int"
  C_EVP_PKEY_CTX_set_rsa_mgf1_md :: "ptr \<Rightarrow> ptr \<Rightarrow> C_int"
  C_EVP_PKEY_decrypt ::
    "ptr \<Rightarrow> byte list \<Rightarrow> C_uint \<Rightarrow> byte list \<Rightarrow> C_uint \<Rightarrow> C_int \<times> C_uint \<times> byte list"
  C_EVP_PKEY_encrypt ::
    "ptr \<Rightarrow> byte list \<Rightarrow> C_uint \<Rightarrow> byte list \<Rightarrow> C_uint \<Rightarrow> C_int \<times> C_uint \<times> byte list"
  C_RSA_sign_pss_mgf1 ::
    "ptr \<Rightarrow> C_uint \<Rightarrow> byte list \<Rightarrow> C_uint \<Rightarrow> ptr \<Rightarrow> ptr \<Rightarrow> C_int
      \<Rightarrow> C_int \<times> C_uint \<times> byte list"
  C_RSA_verify_pss_mgf1 ::
    "ptr \<Rightarrow> byte list \<Rightarrow> C_uint \<Rightarrow> ptr \<Rightarrow> ptr \<Rightarrow> C_int \<Rightarrow> byte list \<Rightarrow> C_uint \<Rightarrow> C_int"
  C_EVP_MD_type :: "ptr \<Rightarrow> C_int"
  C_RSA_sign :: "C_int \<Rightarrow> byte list \<Rightarrow> C_uint \<Rightarrow> ptr \<Rightarrow> C_int \<times> C_uint \<times> byte list"
  C_EVP_RSA_sign :: "ptr \<Rightarrow> byte list \<Rightarrow> C_uint \<Rightarrow> ptr \<Rightarrow> C_int \<times> C_uint \<times> byte list"
  C_RSA_verify :: "C_int \<Rightarrow> byte list \<Rightarrow> C_uint \<Rightarrow> byte list \<Rightarrow> C_uint \<Rightarrow> ptr \<Rightarrow> C_int"
  C_EVP_RSA_verify :: "ptr \<Rightarrow> byte list \<Rightarrow> C_uint \<Rightarrow> byte list \<Rightarrow> C_uint \<Rightarrow> ptr \<Rightarrow> C_int"

text \<open>A call of a foreign function, with the arguments the binding passes.\<close>
datatype (plugins only: code size) event =
    RSA_new
  | RSA_free ptr
  | RSA_generate_key_fips ptr C_int
  | RSA_get0_key ptr
  | RSA_get0_factors ptr
  | RSA_get0_crt_params ptr
  | RSA_size ptr
  | EVP_PKEY_new
  | EVP_PKEY_free ptr
  | EVP_PKEY_set1_RSA ptr ptr
  | EVP_PKEY_CTX_new ptr
  | EVP_PKEY_CTX_free ptr
  | EVP_PKEY_decrypt_init ptr
  | EVP_PKEY_encrypt_init ptr
  | EVP_PKEY_CTX_set_rsa_padding ptr C_int
  | EVP_PKEY_CTX_set_rsa_oaep_md ptr ptr
  | malloc C_size_t
  | EVP_PKEY_CTX_set0_rsa_oaep_label ptr ptr "byte list" C_size_t
  | EVP_PKEY_CTX_set_rsa_pss_saltlen ptr C_int
  | EVP_PKEY_CTX_set_rsa_mgf1_md ptr ptr
  | EVP_PKEY_decrypt ptr "byte list" C_uint "byte list" C_uint
  | EVP_PKEY_encrypt ptr "byte list" C_uint "byte list" C_uint
  | RSA_sign_pss_mgf1 ptr C_uint "byte list" C_uint ptr ptr C_int
  | RSA_verify_pss_mgf1 ptr "byte list" C_uint ptr ptr C_int "byte list" C_uint
  | EVP_MD_type ptr
  | RSA_sign C_int "byte list" C_uint ptr
  | EVP_RSA_sign ptr "byte list" C_uint ptr
  | RSA_verify C_int "byte list" C_uint "byte list" C_uint ptr
  | EVP_RSA_verify ptr "byte list" C_uint "byte list" C_uint ptr

text \<open>The buffer \<open>buf\<close> after the library wrote the bytes \<open>w\<close> at its start.\<close>
definition written :: "byte list \<Rightarrow> byte list \<Rightarrow> byte list" where
  "written buf w = take (length buf) w @ drop (length w) buf"

text \<open>
  The parts of the Go package that the sources use and do not contain:
  \<^verbatim>\<open>cryptoHashToMD\<close> and \<^verbatim>\<open>hashToMD\<close>, which give the library's message digest for a
  \<^verbatim>\<open>crypto.Hash\<close> (an unsigned integer) or a \<^verbatim>\<open>hash.Hash\<close> (an interface value, possibly
  nil), or nil when there is none; and the variable \<^verbatim>\<open>strictFIPS\<close>.
\<close>
type_synonym crypto_Hash = "64 word"
type_synonym hash_Hash = "nat option"

record boring =
  cryptoHashToMD :: "crypto_Hash \<Rightarrow> ptr"
  hashToMD :: "hash_Hash \<Rightarrow> ptr"
  strictFIPS :: bool

text \<open>
  Modelled from the spec: \<^verbatim>\<open>PanicIfStrictFIPS\<close>, which is not among the sources. The
  comment on \<^verbatim>\<open>strictFIPS\<close> says that when the variable is true the API panics when a
  caller uses it in a non-compliant manner.
\<close>
definition PanicIfStrictFIPS :: "boring \<Rightarrow> string \<Rightarrow> unit outcome" where
  "PanicIfStrictFIPS pk msg = (if strictFIPS pk then Panic msg else Return ())"

text \<open>
  Modelled from the spec: the padding flags of \<^verbatim>\<open>goboringcrypto.h\<close>, which is not among
  the sources; they are "the external library's C-level flags" for RSA padding, with the
  values the library gives them.
\<close>
definition GO_RSA_PKCS1_PADDING :: C_int where
  "GO_RSA_PKCS1_PADDING = 1"

definition GO_RSA_NO_PADDING :: C_int where
  "GO_RSA_NO_PADDING = 3"

definition GO_RSA_PKCS1_OAEP_PADDING :: C_int where
  "GO_RSA_PKCS1_OAEP_PADDING = 4"

definition GO_RSA_PKCS1_PSS_PADDING :: C_int where
  "GO_RSA_PKCS1_PSS_PADDING = 6"

text \<open>
  Modelled from the spec: \<^verbatim>\<open>strconv.Itoa\<close>, which is not among the sources: the decimal
  representation of an integer.
\<close>
fun decimal :: "nat \<Rightarrow> string" where
  "decimal n =
     (if n < 10 then [char_of (48 + n)] else decimal (n div 10) @ [char_of (48 + n mod 10)])"

declare decimal.simps [simp del]

definition Itoa :: "int \<Rightarrow> string" where
  "Itoa i = (if i < 0 then CHR ''-'' # decimal (nat (- i)) else decimal (nat i))"

subsection \<open>Key generation\<close>

text \<open>The nine results of \<^verbatim>\<open>GenerateKeyRSA\<close>.\<close>
record generated =
  gen_N :: "int option"
  gen_E :: "int option"
  gen_D :: "int option"
  gen_P :: "int option"
  gen_Q :: "int option"
  gen_Dp :: "int option"
  gen_Dq :: "int option"
  gen_Qinv :: "int option"
  gen_err :: "error option"

definition bad :: "error \<Rightarrow> generated" where
  "bad e = \<lparr>gen_N = None, gen_E = None, gen_D = None, gen_P = None, gen_Q = None,
            gen_Dp = None, gen_Dq = None, gen_Qinv = None, gen_err = Some e\<rparr>"



subsection \<open>Setting up the foreign key object and context\<close>

text \<open>
  The function values passed as \<^verbatim>\<open>init\<close> and \<^verbatim>\<open>crypt\<close>: the wrappers around the cgo
  functions. Each makes one foreign call.
\<close>
definition decryptInit :: "libcrypto \<Rightarrow> ptr \<Rightarrow> event list \<times> C_int" where
  "decryptInit lib ctx = ([EVP_PKEY_decrypt_init ctx], C_EVP_PKEY_decrypt_init lib ctx)"

definition decrypt ::
  "libcrypto \<Rightarrow> ptr \<Rightarrow> byte list \<Rightarrow> C_uint \<Rightarrow> byte list \<Rightarrow> C_uint
     \<Rightarrow> event list \<times> C_int \<times> C_uint \<times> byte list" where
  "decrypt lib ctx out outLen inp inLen =
     ([EVP_PKEY_decrypt ctx out outLen inp inLen], C_EVP_PKEY_decrypt lib ctx out outLen inp inLen)"

definition encryptInit :: "libcrypto \<Rightarrow> ptr \<Rightarrow> event list \<times> C_int" where
  "encryptInit lib ctx = ([EVP_PKEY_encrypt_init ctx], C_EVP_PKEY_encrypt_init lib ctx)"

definition encrypt ::
  "libcrypto \<Rightarrow> ptr \<Rightarrow> byte list \<Rightarrow> C_uint \<Rightarrow> byte list \<Rightarrow> C_uint
     \<Rightarrow> event list \<times> C_int \<times> C_uint \<times> byte list" where
  "encrypt lib ctx out outLen inp inLen =
     ([EVP_PKEY_encrypt ctx out outLen inp inLen], C_EVP_PKEY_encrypt lib ctx out outLen inp inLen)"

text \<open>
  The named results \<^verbatim>\<open>(pkey, ctx, err)\<close> of \<^verbatim>\<open>setupRSA\<close>.
\<close>
type_synonym setup_results = "ptr \<times> ptr \<times> error option"

text \<open>
  The block of \<^verbatim>\<open>setupRSA\<close> under \<^verbatim>\<open>padding == C.GO_RSA_PKCS1_OAEP_PADDING\<close>: the
  foreign calls it makes, and the error it returns with, if any. The conversion of the
  malloc'ed block to a slice of length \<^verbatim>\<open>len(label)\<close> panics beyond \<^verbatim>\<open>1 << 30\<close> bytes.
\<close>
definition setupRSA_oaep ::
  "libcrypto \<Rightarrow> boring \<Rightarrow> ptr \<Rightarrow> hash_Hash \<Rightarrow> byte list \<Rightarrow> event list \<times> error option outcome" where
  "setupRSA_oaep lib pk ctx h label =
     (let md = hashToMD pk h
      in if md = None then ([], Return (Some (errors_New ''crypto/rsa: unsupported hash function'')))
         else if C_EVP_PKEY_CTX_set_rsa_oaep_md lib ctx md = 0
         then ([EVP_PKEY_CTX_set_rsa_oaep_md ctx md],
               Return (Some (NewOpenSSLError ''EVP_PKEY_set_rsa_oaep_md failed'')))
         else
           (let clabel = C_malloc lib (of_nat (length label));
                t = [EVP_PKEY_CTX_set_rsa_oaep_md ctx md, malloc (of_nat (length label))]
            in if clabel = None then (t, Return (Some (NewOpenSSLError ''malloc failed'')))
               else if length label > 2 ^ 30 then (t, Panic ''slice bounds out of range'')
               else
                 (let t' = t @ [EVP_PKEY_CTX_set0_rsa_oaep_label ctx clabel label
                                  (of_nat (length label))]
                  in if C_EVP_PKEY_CTX_set0_rsa_oaep_label lib ctx clabel label
                          (of_nat (length label)) = 0
                     then (t', Return (Some (NewOpenSSLError
                                 ''EVP_PKEY_CTX_set0_rsa_oaep_label failed'')))
                     else (t', Return None))))"

text \<open>
  The block under \<^verbatim>\<open>padding == C.GO_RSA_PKCS1_PSS_PADDING\<close>. \<^verbatim>\<open>C.int(saltLen)\<close> keeps
  the low 32 bits of \<open>saltLen\<close>.
\<close>
definition setupRSA_pss ::
  "libcrypto \<Rightarrow> boring \<Rightarrow> ptr \<Rightarrow> go_int \<Rightarrow> crypto_Hash \<Rightarrow> event list \<times> error option" where
  "setupRSA_pss lib pk ctx saltLen ch =
     (let t = (if saltLen \<noteq> 0 then [EVP_PKEY_CTX_set_rsa_pss_saltlen ctx (scast saltLen)] else [])
      in if saltLen \<noteq> 0 \<and> C_EVP_PKEY_CTX_set_rsa_pss_saltlen lib ctx (scast saltLen) = 0
         then (t, Some (NewOpenSSLError ''EVP_PKEY_set_rsa_pss_saltlen failed''))
         else
           (let md = cryptoHashToMD pk ch
            in if md = None
               then (t, Some (errors_New ''crypto/rsa: unsupported hash function''))
               else if C_EVP_PKEY_CTX_set_rsa_mgf1_md lib ctx md = 0
               then (t @ [EVP_PKEY_CTX_set_rsa_mgf1_md ctx md],
                     Some (NewOpenSSLError ''EVP_PKEY_set_rsa_mgf1_md failed''))
               else (t @ [EVP_PKEY_CTX_set_rsa_mgf1_md ctx md], None)))"

text \<open>
  The body of \<^verbatim>\<open>setupRSA\<close>, up to and including its \<^verbatim>\<open>return\<close> statement. The local
  variables \<^verbatim>\<open>pkey\<close> and \<^verbatim>\<open>ctx\<close> are the named results. A statement
  \<^verbatim>\<open>return nil, nil, e\<close> stores \<^verbatim>\<open>nil\<close>, \<^verbatim>\<open>nil\<close> and \<open>e\<close> in the named results, and
  only then do the deferred calls run: the value of the body is what the \<^verbatim>\<open>return\<close>
  statement stored.
\<close>
definition setupRSA_body ::
  "libcrypto \<Rightarrow> boring \<Rightarrow> ptr \<Rightarrow> C_int \<Rightarrow> hash_Hash \<Rightarrow> byte list \<Rightarrow> go_int \<Rightarrow> crypto_Hash
     \<Rightarrow> (ptr \<Rightarrow> event list \<times> C_int) \<Rightarrow> event list \<times> setup_results outcome" where
  "setupRSA_body lib pk key padding h label saltLen ch init =
     (let pkey = C_EVP_PKEY_new lib;
          t1 = [EVP_PKEY_new]
      in if pkey = None
         then (t1, Return (None, None, Some (NewOpenSSLError ''EVP_PKEY_new failed'')))
         else
      (let t2 = t1 @ [EVP_PKEY_set1_RSA pkey key]
       in if C_EVP_PKEY_set1_RSA lib pkey key = 0
          then (t2, Return (None, None, Some (NewOpenSSLError ''EVP_PKEY_set1_RSA failed'')))
          else
      (let ctx = C_EVP_PKEY_CTX_new lib pkey;
           t3 = t2 @ [EVP_PKEY_CTX_new pkey]
       in if ctx = None
          then (t3, Return (None, None, Some (NewOpenSSLError ''EVP_PKEY_CTX_new failed'')))
          else
      (let t4 = t3 @ fst (init ctx)
       in if snd (init ctx) = 0
          then (t4, Return (None, None,
                  Some (NewOpenSSLError ''EVP_PKEY_operation_init failed'')))
          else
      (let t5 = t4 @ [EVP_PKEY_CTX_set_rsa_padding ctx padding]
       in if C_EVP_PKEY_CTX_set_rsa_padding lib ctx padding = 0
          then (t5, Return (None, None,
                  Some (NewOpenSSLError ''EVP_PKEY_CTX_set_rsa_padding failed'')))
          else
      (let (t6, r6) = (if padding = GO_RSA_PKCS1_OAEP_PADDING
                       then setupRSA_oaep lib pk ctx h label else ([], Return None))
       in case r6 of
            Panic m \<Rightarrow> (t5 @ t6, Panic m)
          | Crash m \<Rightarrow> (t5 @ t6, Crash m)
          | Return (Some e) \<Rightarrow> (t5 @ t6, Return (None, None, Some e))
          | Return None \<Rightarrow>
      (let (t7, r7) = (if padding = GO_RSA_PKCS1_PSS_PADDING
                       then setupRSA_pss lib pk ctx saltLen ch else ([], None))
       in case r7 of
            Some e \<Rightarrow> (t5 @ t6 @ t7, Return (None, None, Some e))
          | None \<Rightarrow> (t5 @ t6 @ t7, Return (pkey, ctx, None)))))))))"

text \<open>
  The deferred function of \<^verbatim>\<open>setupRSA\<close>, run on the named results as the \<^verbatim>\<open>return\<close>
  statement left them: the calls it makes and the named results it leaves.
\<close>
definition setupRSA_deferred :: "setup_results \<Rightarrow> event list \<times> setup_results" where
  "setupRSA_deferred r =
     (case r of (pkey, ctx, err) \<Rightarrow>
        if err \<noteq> None
        then ((if pkey \<noteq> None then [EVP_PKEY_free pkey] else []) @
              (if ctx \<noteq> None then [EVP_PKEY_CTX_free ctx] else []),
              (None, None, err))
        else ([], (pkey, ctx, err)))"

text \<open>
  \<^verbatim>\<open>setupRSA\<close>: the body, then the deferred function. While the function panics
  \<^verbatim>\<open>err\<close> is still nil, so the deferred function makes no call.
\<close>
definition setupRSA ::
  "libcrypto \<Rightarrow> boring \<Rightarrow> ptr \<Rightarrow> C_int \<Rightarrow> hash_Hash \<Rightarrow> byte list \<Rightarrow> go_int \<Rightarrow> crypto_Hash
     \<Rightarrow> (ptr \<Rightarrow> event list \<times> C_int) \<Rightarrow> event list \<times> setup_results outcome" where
  "setupRSA lib pk key padding h label saltLen ch init =
     (case setupRSA_body lib pk key padding h label saltLen ch init of
        (t, Return r) \<Rightarrow> (t @ fst (setupRSA_deferred r), Return (snd (setupRSA_deferred r)))
      | (t, Panic m) \<Rightarrow> (t, Panic m)
      | (t, Crash m) \<Rightarrow> (t, Crash m))"

subsection \<open>Encryption and decryption\<close>

text \<open>
  \<^verbatim>\<open>cryptRSA\<close>. The parameter \<^verbatim>\<open>gokey\<close> only keeps the Go key alive and is left out.
  \<^verbatim>\<open>outLen\<close> starts as 0; the first call of \<^verbatim>\<open>crypt\<close> passes a nil output buffer. The
  two deferred frees run, last registered first, on every way out after the setup.
\<close>
definition cryptRSA ::
  "libcrypto \<Rightarrow> boring \<Rightarrow> ptr \<Rightarrow> C_int \<Rightarrow> hash_Hash \<Rightarrow> byte list \<Rightarrow> go_int \<Rightarrow> crypto_Hash
     \<Rightarrow> (ptr \<Rightarrow> event list \<times> C_int)
     \<Rightarrow> (ptr \<Rightarrow> byte list \<Rightarrow> C_uint \<Rightarrow> byte list \<Rightarrow> C_uint \<Rightarrow> event list \<times> C_int \<times> C_uint \<times> byte list)
     \<Rightarrow> byte list \<Rightarrow> event list \<times> (byte list option \<times> error option) outcome" where
  "cryptRSA lib pk key padding h label saltLen ch init crypt inp =
     (case setupRSA lib pk key padding h label saltLen ch init of
        (t, Panic m) \<Rightarrow> (t, Panic m)
      | (t, Crash m) \<Rightarrow> (t, Crash m)
      | (t, Return (pkey, ctx, err)) \<Rightarrow>
          if err \<noteq> None then (t, Return (None, err))
          else
            (let deferred = [EVP_PKEY_CTX_free ctx, EVP_PKEY_free pkey];
                 (e1, ret1, outLen1, w1) = crypt ctx [] 0 (base inp) (of_nat (length inp))
             in if ret1 = 0
                then (t @ e1 @ deferred,
                      Return (None, Some (NewOpenSSLError ''EVP_PKEY_decrypt/encrypt failed'')))
                else
                  (let out = replicate (unat outLen1) (0::byte);
                       (e2, ret2, outLen2, w2) =
                          crypt ctx (base out) outLen1 (base inp) (of_nat (length inp))
                   in if sint ret2 \<le> 0
                      then (t @ e1 @ e2 @ deferred,
                            Return (None,
                              Some (NewOpenSSLError ''EVP_PKEY_decrypt/encrypt failed'')))
                      else if unat outLen2 > length out
                      then (t @ e1 @ e2 @ deferred, Panic ''slice bounds out of range'')
                      else (t @ e1 @ e2 @ deferred,
                            Return (Some (take (unat outLen2) (written out w2)), None)))))"

subsection \<open>Keys\<close>

record PublicKeyRSA =
  key :: ptr

record PrivateKeyRSA =
  key :: ptr

definition DecryptRSAOAEP ::
  "libcrypto \<Rightarrow> boring \<Rightarrow> hash_Hash \<Rightarrow> PrivateKeyRSA \<Rightarrow> byte list \<Rightarrow> byte list
     \<Rightarrow> event list \<times> (byte list option \<times> error option) outcome" where
  "DecryptRSAOAEP lib pk h priv ciphertext label =
     cryptRSA lib pk (PrivateKeyRSA.key priv) GO_RSA_PKCS1_OAEP_PADDING h label 0 0
       (decryptInit lib) (decrypt lib) ciphertext"

definition EncryptRSAOAEP ::
  "libcrypto \<Rightarrow> boring \<Rightarrow> hash_Hash \<Rightarrow> PublicKeyRSA \<Rightarrow> byte list \<Rightarrow> byte list
     \<Rightarrow> event list \<times> (byte list option \<times> error option) outcome" where
  "EncryptRSAOAEP lib pk h pub msg label =
     cryptRSA lib pk (PublicKeyRSA.key pub) GO_RSA_PKCS1_OAEP_PADDING h label 0 0
       (encryptInit lib) (encrypt lib) msg"

definition DecryptRSAPKCS1 ::
  "libcrypto \<Rightarrow> boring \<Rightarrow> PrivateKeyRSA \<Rightarrow> byte list
     \<Rightarrow> event list \<times> (byte list option \<times> error option) outcome" where
  "DecryptRSAPKCS1 lib pk priv ciphertext =
     cryptRSA lib pk (PrivateKeyRSA.key priv) GO_RSA_PKCS1_PADDING None [] 0 0
       (decryptInit lib) (decrypt lib) ciphertext"

definition EncryptRSAPKCS1 ::
  "libcrypto \<Rightarrow> boring \<Rightarrow> PublicKeyRSA \<Rightarrow> byte list
     \<Rightarrow> event list \<times> (byte list option \<times> error option) outcome" where
  "EncryptRSAPKCS1 lib pk pub msg =
     cryptRSA lib pk (PublicKeyRSA.key pub) GO_RSA_PKCS1_PADDING None [] 0 0
       (encryptInit lib) (encrypt lib) msg"

definition DecryptRSANoPadding ::
  "libcrypto \<Rightarrow> boring \<Rightarrow> PrivateKeyRSA \<Rightarrow> byte list
     \<Rightarrow> event list \<times> (byte list option \<times> error option) outcome" where
  "DecryptRSANoPadding lib pk priv ciphertext =
     cryptRSA lib pk (PrivateKeyRSA.key priv) GO_RSA_NO_PADDING None [] 0 0
       (decryptInit lib) (decrypt lib) ciphertext"

definition EncryptRSANoPadding ::
  "libcrypto \<Rightarrow> boring \<Rightarrow> PublicKeyRSA \<Rightarrow> byte list
     \<Rightarrow> event list \<times> (byte list option \<times> error option) outcome" where
  "EncryptRSANoPadding lib pk pub msg =
     cryptRSA lib pk (PublicKeyRSA.key pub) GO_RSA_NO_PADDING None [] 0 0
       (encryptInit lib) (encrypt lib) msg"

subsection \<open>Signing and verification\<close>

text \<open>
  \<^verbatim>\<open>SignRSAPSS\<close>. \<^verbatim>\<open>C.int(saltLen)\<close> keeps the low 32 bits of \<open>saltLen\<close>;
  \<^verbatim>\<open>out[:outLen]\<close> panics when the library reports more bytes than \<open>out\<close> has.
\<close>
definition SignRSAPSS ::
  "libcrypto \<Rightarrow> boring \<Rightarrow> PrivateKeyRSA \<Rightarrow> crypto_Hash \<Rightarrow> byte list \<Rightarrow> go_int
     \<Rightarrow> event list \<times> (byte list option \<times> error option) outcome" where
  "SignRSAPSS lib pk priv h hashed saltLen =
     (let md = cryptoHashToMD pk h
      in if md = None
         then ([], Return (None, Some (errors_New ''crypto/rsa: unsupported hash function'')))
         else
           (let saltLen' = (if saltLen = 0 then - 1 else saltLen);
                out = replicate (C_RSA_size lib (PrivateKeyRSA.key priv)) (0::byte);
                t = [RSA_size (PrivateKeyRSA.key priv),
                     RSA_sign_pss_mgf1 (PrivateKeyRSA.key priv) (of_nat (length out))
                       (base hashed) (of_nat (length hashed)) md None (scast saltLen')]
            in case C_RSA_sign_pss_mgf1 lib (PrivateKeyRSA.key priv) (of_nat (length out))
                    (base hashed) (of_nat (length hashed)) md None (scast saltLen') of
                 (ret, outLen, w) \<Rightarrow>
                   if ret = 0
                   then (t, Return (None, Some (NewOpenSSLError ''RSA_sign_pss_mgf1 failed'')))
                   else if unat outLen > length out
                   then (t, Panic ''slice bounds out of range'')
                   else (t, Return (Some (take (unat outLen) (written out w)), None))))"

definition VerifyRSAPSS ::
  "libcrypto \<Rightarrow> boring \<Rightarrow> PublicKeyRSA \<Rightarrow> crypto_Hash \<Rightarrow> byte list \<Rightarrow> byte list \<Rightarrow> go_int
     \<Rightarrow> event list \<times> error option outcome" where
  "VerifyRSAPSS lib pk pub h hashed sig saltLen =
     (let md = cryptoHashToMD pk h
      in if md = None
         then ([], Return (Some (errors_New ''crypto/rsa: unsupported hash function'')))
         else
           (let saltLen' = (if saltLen = 0 then - 2 else saltLen);
                t = [RSA_verify_pss_mgf1 (PublicKeyRSA.key pub) (base hashed)
                       (of_nat (length hashed)) md None (scast saltLen') (base sig)
                       (of_nat (length sig))]
            in if C_RSA_verify_pss_mgf1 lib (PublicKeyRSA.key pub) (base hashed)
                    (of_nat (length hashed)) md None (scast saltLen') (base sig)
                    (of_nat (length sig)) = 0
               then (t, Return (Some (NewOpenSSLError ''RSA_verify_pss_mgf1 failed'')))
               else (t, Return None)))"

text \<open>
  \<^verbatim>\<open>SignRSAPKCS1v15\<close>. The output buffer is made, with a call of \<^verbatim>\<open>RSA_size\<close>, before
  the hash is looked up. \<^verbatim>\<open>int(h)\<close> reads the unsigned \<open>h\<close> as a signed integer.
\<close>
definition SignRSAPKCS1v15 ::
  "libcrypto \<Rightarrow> boring \<Rightarrow> PrivateKeyRSA \<Rightarrow> crypto_Hash \<Rightarrow> byte list \<Rightarrow> bool
     \<Rightarrow> event list \<times> (byte list option \<times> error option) outcome" where
  "SignRSAPKCS1v15 lib pk priv h msg msgIsHashed =
     (let out = replicate (C_RSA_size lib (PrivateKeyRSA.key priv)) (0::byte);
          t0 = [RSA_size (PrivateKeyRSA.key priv)];
          md = cryptoHashToMD pk h
      in if md = None
         then (t0, Return (None, Some (errors_New
                 (''crypto/rsa: unsupported hash function: '' @ Itoa (sint h)))))
         else if msgIsHashed
         then
           (case PanicIfStrictFIPS pk
                   ''You must provide a raw unhashed message for PKCS1v15 signing and use HashSignPKCS1v15 instead of SignPKCS1v15'' of
              Panic m \<Rightarrow> (t0, Panic m)
            | Crash m \<Rightarrow> (t0, Crash m)
            | Return _ \<Rightarrow>
                (let nid = C_EVP_MD_type lib md;
                     t = t0 @ [EVP_MD_type md,
                               RSA_sign nid (base msg) (of_nat (length msg))
                                 (PrivateKeyRSA.key priv)]
                 in case C_RSA_sign lib nid (base msg) (of_nat (length msg))
                         (PrivateKeyRSA.key priv) of
                      (ret, outLen, w) \<Rightarrow>
                        if ret = 0
                        then (t, Return (None, Some (NewOpenSSLError ''RSA_sign failed'')))
                        else if unat outLen > length out
                        then (t, Panic ''slice bounds out of range'')
                        else (t, Return (Some (take (unat outLen) (written out w)), None))))
         else
           (let t = t0 @ [EVP_RSA_sign md (base msg) (of_nat (length msg))
                            (PrivateKeyRSA.key priv)]
            in case C_EVP_RSA_sign lib md (base msg) (of_nat (length msg))
                    (PrivateKeyRSA.key priv) of
                 (ret, outLen, w) \<Rightarrow>
                   if ret = 0
                   then (t, Return (None, Some (NewOpenSSLError ''RSA_sign failed'')))
                   else if unat outLen > length out
                   then (t, Panic ''slice bounds out of range'')
                   else (t, Return (Some (take (unat outLen) (written out w)), None))))"

text \<open>Go's \<^verbatim>\<open>copy(dst, src)\<close>: the slice \<open>dst\<close> afterwards.\<close>
definition copy :: "byte list \<Rightarrow> byte list \<Rightarrow> byte list" where
  "copy dst src = take (length dst) src @ drop (length src) dst"

text \<open>
  The first statement of \<^verbatim>\<open>VerifyRSAPKCS1v15\<close>: the signature handed on, given the
  key size (\<^verbatim>\<open>size\<close> in the source).
\<close>
definition zero_padded :: "nat \<Rightarrow> byte list \<Rightarrow> byte list" where
  "zero_padded keysize sig =
     (if length sig < keysize
      then (let zsig = replicate keysize (0::byte)
            in take (length zsig - length sig) zsig @
               copy (drop (length zsig - length sig) zsig) sig)
      else sig)"

definition VerifyRSAPKCS1v15 ::
  "libcrypto \<Rightarrow> boring \<Rightarrow> PublicKeyRSA \<Rightarrow> crypto_Hash \<Rightarrow> byte list \<Rightarrow> byte list \<Rightarrow> bool
     \<Rightarrow> event list \<times> error option outcome" where
  "VerifyRSAPKCS1v15 lib pk pub h msg sig0 msgIsHashed =
     (let keysize = C_RSA_size lib (PublicKeyRSA.key pub);
          sig = zero_padded keysize sig0;
          t0 = [RSA_size (PublicKeyRSA.key pub)];
          md = cryptoHashToMD pk h
      in if md = None
         then (t0, Return (Some (errors_New ''crypto/rsa: unsupported hash function'')))
         else if msgIsHashed
         then
           (case PanicIfStrictFIPS pk
                   ''You must provide a raw unhashed message for PKCS1v15 verification and use HashVerifyPKCS1v15 instead of VerifyPKCS1v15'' of
              Panic m \<Rightarrow> (t0, Panic m)
            | Crash m \<Rightarrow> (t0, Crash m)
            | Return _ \<Rightarrow>
                (let nid = C_EVP_MD_type lib md;
                     t = t0 @ [EVP_MD_type md,
                               RSA_verify nid (base msg) (of_nat (length msg)) (base sig)
                                 (of_nat (length sig)) (PublicKeyRSA.key pub)]
                 in if C_RSA_verify lib nid (base msg) (of_nat (length msg)) (base sig)
                         (of_nat (length sig)) (PublicKeyRSA.key pub) = 0
                    then (t, Return (Some (NewOpenSSLError ''RSA_verify failed'')))
                    else (t, Return None)))
         else
           (let t = t0 @ [EVP_RSA_verify md (base msg) (of_nat (length msg)) (base sig)
                            (of_nat (length sig)) (PublicKeyRSA.key pub)]
            in if C_EVP_RSA_verify lib md (base msg) (of_nat (length msg)) (base sig)
                    (of_nat (length sig)) (PublicKeyRSA.key pub) = 0
               then (t, Return (Some (NewOpenSSLError ''RSA_verify failed'')))
               else (t, Return None)))"

subsection \<open>What a list of foreign calls shows\<close>

text \<open>The foreign routines that sign or verify.\<close>
definition sign_or_verify :: "event \<Rightarrow> bool" where
  "sign_or_verify e =
     (case e of
        RSA_sign_pss_mgf1 k cap m n md mgf s \<Rightarrow> True
      | RSA_verify_pss_mgf1 k m n md mgf s sg sn \<Rightarrow> True
      | RSA_sign nid m n k \<Rightarrow> True
      | EVP_RSA_sign md m n k \<Rightarrow> True
      | RSA_verify nid m n sg sn k \<Rightarrow> True
      | EVP_RSA_verify md m n sg sn k \<Rightarrow> True
      | _ \<Rightarrow> False)"

text \<open>
  The message (plaintext, ciphertext or digest) a call hands to the library, with the
  length given for it, and likewise the signature.
\<close>
definition passed_msg :: "event \<Rightarrow> (byte list \<times> C_uint) option" where
  "passed_msg e =
     (case e of
        EVP_PKEY_decrypt ctx out outLen m n \<Rightarrow> Some (m, n)
      | EVP_PKEY_encrypt ctx out outLen m n \<Rightarrow> Some (m, n)
      | RSA_sign_pss_mgf1 k cap m n md mgf s \<Rightarrow> Some (m, n)
      | RSA_verify_pss_mgf1 k m n md mgf s sg sn \<Rightarrow> Some (m, n)
      | RSA_sign nid m n k \<Rightarrow> Some (m, n)
      | EVP_RSA_sign md m n k \<Rightarrow> Some (m, n)
      | RSA_verify nid m n sg sn k \<Rightarrow> Some (m, n)
      | EVP_RSA_verify md m n sg sn k \<Rightarrow> Some (m, n)
      | _ \<Rightarrow> None)"

definition passed_sig :: "event \<Rightarrow> (byte list \<times> C_uint) option" where
  "passed_sig e =
     (case e of
        RSA_verify_pss_mgf1 k m n md mgf s sg sn \<Rightarrow> Some (sg, sn)
      | RSA_verify nid m n sg sn k \<Rightarrow> Some (sg, sn)
      | EVP_RSA_verify md m n sg sn k \<Rightarrow> Some (sg, sn)
      | _ \<Rightarrow> None)"

definition passed_msgs :: "event list \<Rightarrow> (byte list \<times> C_uint) list" where
  "passed_msgs tr = List.map_filter passed_msg tr"

definition passed_sigs :: "event list \<Rightarrow> (byte list \<times> C_uint) list" where
  "passed_sigs tr = List.map_filter passed_sig tr"

text \<open>The salt lengths given to the PSS signing and verification routines.\<close>
definition pss_salt :: "event \<Rightarrow> C_int option" where
  "pss_salt e =
     (case e of
        RSA_sign_pss_mgf1 k cap m n md mgf s \<Rightarrow> Some s
      | RSA_verify_pss_mgf1 k m n md mgf s sg sn \<Rightarrow> Some s
      | _ \<Rightarrow> None)"

definition pss_salt_lengths :: "event list \<Rightarrow> C_int list" where
  "pss_salt_lengths tr = List.map_filter pss_salt tr"

text \<open>The padding flags a context is configured with.\<close>
definition padding_flag :: "event \<Rightarrow> C_int option" where
  "padding_flag e =
     (case e of EVP_PKEY_CTX_set_rsa_padding ctx p \<Rightarrow> Some p | _ \<Rightarrow> None)"

definition padding_flags :: "event list \<Rightarrow> C_int list" where
  "padding_flags tr = List.map_filter padding_flag tr"

text \<open>The setup that is specific to OAEP: setting the digest, and handing over the label.\<close>
definition oaep_setup :: "event \<Rightarrow> bool" where
  "oaep_setup e =
     (case e of
        EVP_PKEY_CTX_set_rsa_oaep_md ctx md \<Rightarrow> True
      | EVP_PKEY_CTX_set0_rsa_oaep_label ctx p l n \<Rightarrow> True
      | _ \<Rightarrow> False)"

text \<open>
  The setup reaches the call that sets the padding: the key object and the context are
  allocated, the key is attached and \<^verbatim>\<open>init\<close> has not returned 0. These are the four
  returns of \<^verbatim>\<open>setupRSA\<close> that precede \<^verbatim>\<open>EVP_PKEY_CTX_set_rsa_padding\<close>.
\<close>
definition reaches_padding :: "libcrypto \<Rightarrow> ptr \<Rightarrow> (ptr \<Rightarrow> event list \<times> C_int) \<Rightarrow> bool" where
  "reaches_padding lib k init =
     (C_EVP_PKEY_new lib \<noteq> None \<and>
      C_EVP_PKEY_set1_RSA lib (C_EVP_PKEY_new lib) k \<noteq> 0 \<and>
      C_EVP_PKEY_CTX_new lib (C_EVP_PKEY_new lib) \<noteq> None \<and>
      snd (init (C_EVP_PKEY_CTX_new lib (C_EVP_PKEY_new lib))) \<noteq> 0)"

text \<open>
  The setup reaches that call and the library accepts the padding flag.
\<close>
definition padding_accepted ::
  "libcrypto \<Rightarrow> ptr \<Rightarrow> (ptr \<Rightarrow> event list \<times> C_int) \<Rightarrow> C_int \<Rightarrow> bool" where
  "padding_accepted lib k init padding =
     (reaches_padding lib k init \<and>
      C_EVP_PKEY_CTX_set_rsa_padding lib (C_EVP_PKEY_CTX_new lib (C_EVP_PKEY_new lib)) padding \<noteq> 0)"

text \<open>
  The calls specific to OAEP of the block under
  \<^verbatim>\<open>padding == C.GO_RSA_PKCS1_OAEP_PADDING\<close>, on the context of the setup: none when
  the hash has no digest; the digest alone when the library refuses it, when the
  allocation of the copy of the label fails, or when the label is longer than
  \<^verbatim>\<open>1 << 30\<close> bytes; the digest and then the label otherwise.
\<close>
definition oaep_calls :: "libcrypto \<Rightarrow> boring \<Rightarrow> hash_Hash \<Rightarrow> byte list \<Rightarrow> event list" where
  "oaep_calls lib pk h label =
     (let ctx = C_EVP_PKEY_CTX_new lib (C_EVP_PKEY_new lib);
          md = hashToMD pk h;
          n = of_nat (length label)
      in if md = None then []
         else if C_EVP_PKEY_CTX_set_rsa_oaep_md lib ctx md = 0 \<or> C_malloc lib n = None \<or>
                 2 ^ 30 < length label
         then [EVP_PKEY_CTX_set_rsa_oaep_md ctx md]
         else [EVP_PKEY_CTX_set_rsa_oaep_md ctx md,
               EVP_PKEY_CTX_set0_rsa_oaep_label ctx (C_malloc lib n) label n])"

text \<open>
  The inputs that \<^verbatim>\<open>cryptRSA\<close> hands to its function \<^verbatim>\<open>crypt\<close> after a setup with
  the result \<open>su\<close>: none when the setup has failed; otherwise the input with
  \<^verbatim>\<open>C.uint(len(in))\<close>, the length modulo \<open>2 ^ 32\<close>, in the call that asks for the length
  of the output, and once more in the call that fills the output when the first call
  has not returned 0.
\<close>
definition crypt_msgs ::
  "event list \<times> setup_results outcome
     \<Rightarrow> (ptr \<Rightarrow> byte list \<Rightarrow> C_uint \<Rightarrow> byte list \<Rightarrow> C_uint \<Rightarrow> event list \<times> C_int \<times> C_uint \<times> byte list)
     \<Rightarrow> byte list \<Rightarrow> (byte list \<times> C_uint) list" where
  "crypt_msgs su crypt inp =
     (case snd su of
        Return (pkey, ctx, None) \<Rightarrow>
          if fst (snd (crypt ctx [] 0 inp (of_nat (length inp)))) = 0
          then [(inp, of_nat (length inp))]
          else [(inp, of_nat (length inp)), (inp, of_nat (length inp))]
      | _ \<Rightarrow> [])"

text \<open>The frees of a key object or of a context.\<close>
definition frees :: "event \<Rightarrow> bool" where
  "frees e =
     (case e of EVP_PKEY_free p \<Rightarrow> True | EVP_PKEY_CTX_free c \<Rightarrow> True | _ \<Rightarrow> False)"



subsection \<open>A library in which every call succeeds\<close>

text \<open>
  Concrete inputs for the examples below: a library whose calls all succeed on a key of
  four bytes, and a package that knows one hash (number 5) and is not in strict mode.
\<close>
definition lib_ok :: libcrypto where
  "lib_ok =
     \<lparr>C_RSA_new = Some 7,
      C_RSA_generate_key_fips = (\<lambda>k bits. 1),
      C_RSA_get0_key = (\<lambda>k. (Some [187], Some [1, 0, 1], Some [27])),
      C_RSA_get0_factors = (\<lambda>k. (Some [17], Some [11])),
      C_RSA_get0_crt_params = (\<lambda>k. (Some [11], Some [7], Some [14])),
      C_RSA_size = (\<lambda>k. 4),
      C_EVP_PKEY_new = Some 2,
      C_EVP_PKEY_set1_RSA = (\<lambda>p k. 1),
      C_EVP_PKEY_CTX_new = (\<lambda>p. Some 3),
      C_EVP_PKEY_decrypt_init = (\<lambda>c. 1),
      C_EVP_PKEY_encrypt_init = (\<lambda>c. 1),
      C_EVP_PKEY_CTX_set_rsa_padding = (\<lambda>c p. 1),
      C_EVP_PKEY_CTX_set_rsa_oaep_md = (\<lambda>c md. 1),
      C_malloc = (\<lambda>n. Some 4),
      C_EVP_PKEY_CTX_set0_rsa_oaep_label = (\<lambda>c p l n. 1),
      C_EVP_PKEY_CTX_set_rsa_pss_saltlen = (\<lambda>c s. 1),
      C_EVP_PKEY_CTX_set_rsa_mgf1_md = (\<lambda>c md. 1),
      C_EVP_PKEY_decrypt = (\<lambda>c out outLen m n. (1, 4, take (length out) [9, 9, 9, 9])),
      C_EVP_PKEY_encrypt = (\<lambda>c out outLen m n. (1, 4, take (length out) [7, 7, 7, 7])),
      C_RSA_sign_pss_mgf1 = (\<lambda>k cap m n md mgf s. (1, 4, [5, 5, 5, 5])),
      C_RSA_verify_pss_mgf1 = (\<lambda>k m n md mgf s sg sn. 1),
      C_EVP_MD_type = (\<lambda>md. 672),
      C_RSA_sign = (\<lambda>nid m n k. (1, 4, [6, 6, 6, 6])),
      C_EVP_RSA_sign = (\<lambda>md m n k. (1, 4, [6, 6, 6, 6])),
      C_RSA_verify = (\<lambda>nid m n sg sn k. 1),
      C_EVP_RSA_verify = (\<lambda>md m n sg sn k. 1)\<rparr>"

definition pk_ok :: boring where
  "pk_ok =
     \<lparr>cryptoHashToMD = (\<lambda>h. if h = 5 then Some 10 else None),
      hashToMD = (\<lambda>h. if h = None then None else Some 10),
      strictFIPS = False\<rparr>"

section \<open>The test of ECDSA against the NIST vectors\<close>

text \<open>
  \<^verbatim>\<open>TestVectors\<close> of package \<^verbatim>\<open>ecdsa\<close> reads the file of vectors line by line. A line
  in brackets opens a section and selects curve and hash; the lines that follow set the
  fields of a record; a \<^verbatim>\<open>Result\<close> line checks the record. The functions under test
  (\<^verbatim>\<open>Verify\<close>, \<^verbatim>\<open>HashVerify\<close>) and the library functions the test calls are not among
  the sources: they are the fields of \<open>ecdsa_env\<close>.
\<close>

datatype curve = P224 | P256 | P384 | P521

text \<open>The hash in use: \<^verbatim>\<open>sha1.New()\<close>, \<^verbatim>\<open>sha256.New224()\<close>, and so on.\<close>
datatype hash_fn = SHA1 | SHA224 | SHA256 | SHA384 | SHA512

record PublicKey =
  Curve :: "curve option"
  X :: "int option"
  Y :: "int option"

text \<open>
  \<^verbatim>\<open>boring.Enabled\<close>; the two verification functions; \<^verbatim>\<open>h.Reset(); h.Write(msg);
  h.Sum(hashed[:0])\<close> as the digest of the message under the hash in use;
  \<^verbatim>\<open>hex.DecodeString\<close> (the error text, or the bytes); and
  \<^verbatim>\<open>new(big.Int).SetString(s, 16)\<close> (\<open>None\<close> when it reports failure).
\<close>
record ecdsa_env =
  boring_Enabled :: bool
  Verify :: "PublicKey \<Rightarrow> byte list \<Rightarrow> int option \<Rightarrow> int option \<Rightarrow> bool"
  HashVerify :: "PublicKey \<Rightarrow> byte list \<Rightarrow> int option \<Rightarrow> int option \<Rightarrow> crypto_Hash \<Rightarrow> bool"
  hash_Sum :: "hash_fn \<Rightarrow> byte list \<Rightarrow> byte list"
  hex_DecodeString :: "string \<Rightarrow> string + byte list"
  big_SetString16 :: "string \<Rightarrow> int option"

text \<open>The identifiers of the hashes in package \<^verbatim>\<open>crypto\<close>.\<close>
definition crypto_SHA1 :: crypto_Hash where
  "crypto_SHA1 = 3"

definition crypto_SHA224 :: crypto_Hash where
  "crypto_SHA224 = 4"

definition crypto_SHA256 :: crypto_Hash where
  "crypto_SHA256 = 5"

definition crypto_SHA384 :: crypto_Hash where
  "crypto_SHA384 = 6"

definition crypto_SHA512 :: crypto_Hash where
  "crypto_SHA512 = 7"

text \<open>The variables of \<^verbatim>\<open>TestVectors\<close> that live across lines.\<close>
record vectors =
  tv_lineNo :: int
  tv_h :: "hash_fn option"
  tv_ch :: crypto_Hash
  tv_msg :: "byte list"
  tv_hashed :: "byte list"
  tv_r :: "int option"
  tv_s :: "int option"
  tv_pub :: PublicKey

text \<open>
  After a line the loop goes on with the next line, or the test has failed
  (\<^verbatim>\<open>t.Fatalf\<close>, with its message), or it has panicked.
\<close>
datatype progress = Proceed vectors | Fatalf string | Panicked string

definition fromHex :: "ecdsa_env \<Rightarrow> string \<Rightarrow> int option outcome" where
  "fromHex env str =
     (case big_SetString16 env str of
        None \<Rightarrow> Panic ''bad hex''
      | Some v \<Rightarrow> Return (Some v))"

text \<open>\<^verbatim>\<open>strings.SplitN(line, ",", 2)\<close>: split at the first comma, if there is one.\<close>
definition SplitN2 :: "string \<Rightarrow> string list" where
  "SplitN2 line =
     (if CHR '','' \<in> set line
      then [takeWhile (\<lambda>c. c \<noteq> CHR '','') line, tl (dropWhile (\<lambda>c. c \<noteq> CHR '','') line)]
      else [line])"

text \<open>
  A line that starts with a bracket. With the external library enabled a section for
  P-224 is passed over before anything is assigned. \<^verbatim>\<open>parts[1]\<close> panics when the line
  has no comma, and \<^verbatim>\<open>line[1 : len(line)-1]\<close> when the line is the bracket alone.
\<close>
definition TestVectors_header :: "ecdsa_env \<Rightarrow> vectors \<Rightarrow> string \<Rightarrow> progress" where
  "TestVectors_header env st line0 =
     (if length line0 < 2 then Panicked ''slice bounds out of range''
      else
        (let line = take (length line0 - 2) (drop 1 line0);
             parts = SplitN2 line
         in if parts ! 0 = ''P-224'' \<and> boring_Enabled env then Proceed st
            else
              (let c = (if parts ! 0 = ''P-224'' then Some P224
                        else if parts ! 0 = ''P-256'' then Some P256
                        else if parts ! 0 = ''P-384'' then Some P384
                        else if parts ! 0 = ''P-521'' then Some P521
                        else None);
                   st1 = st\<lparr>tv_pub := (tv_pub st)\<lparr>Curve := c\<rparr>\<rparr>
               in if length parts < 2 then Panicked ''index out of range''
                  else if parts ! 1 = ''SHA-1''
                  then Proceed (st1\<lparr>tv_h := Some SHA1, tv_ch := crypto_SHA1\<rparr>)
                  else if parts ! 1 = ''SHA-224''
                  then Proceed (st1\<lparr>tv_h := Some SHA224, tv_ch := crypto_SHA224\<rparr>)
                  else if parts ! 1 = ''SHA-256''
                  then Proceed (st1\<lparr>tv_h := Some SHA256, tv_ch := crypto_SHA256\<rparr>)
                  else if parts ! 1 = ''SHA-384''
                  then Proceed (st1\<lparr>tv_h := Some SHA384, tv_ch := crypto_SHA384\<rparr>)
                  else if parts ! 1 = ''SHA-512''
                  then Proceed (st1\<lparr>tv_h := Some SHA512, tv_ch := crypto_SHA512\<rparr>)
                  else Proceed (st1\<lparr>tv_h := None\<rparr>))))"

text \<open>
  The \<^verbatim>\<open>Result\<close> case. \<^verbatim>\<open>line[9]\<close> panics when nothing follows the prefix. The
  digest is a variable of the case alone: the outer \<^verbatim>\<open>hashed\<close> stays as it is.
\<close>
definition TestVectors_result :: "ecdsa_env \<Rightarrow> vectors \<Rightarrow> hash_fn \<Rightarrow> string \<Rightarrow> progress" where
  "TestVectors_result env st h line =
     (if length line \<le> 9 then Panicked ''index out of range''
      else
        (let expected = (line ! 9 = CHR ''P'');
             hashed = hash_Sum env h (tv_msg st)
         in if boring_Enabled env
            then (if HashVerify env (tv_pub st) (tv_msg st) (tv_r st) (tv_s st) (tv_ch st)
                       \<noteq> expected
                  then Fatalf (''incorrect result on line '' @ Itoa (tv_lineNo st))
                  else Proceed st)
            else (if Verify env (tv_pub st) hashed (tv_r st) (tv_s st) \<noteq> expected
                  then Fatalf (''incorrect result on line '' @ Itoa (tv_lineNo st))
                  else Proceed st)))"

text \<open>The \<^verbatim>\<open>switch\<close> over the variable a line sets, for a section that is not skipped.\<close>
definition TestVectors_variable :: "ecdsa_env \<Rightarrow> vectors \<Rightarrow> hash_fn \<Rightarrow> string \<Rightarrow> progress" where
  "TestVectors_variable env st h line =
     (if prefix ''Msg = '' line
      then (case hex_DecodeString env (drop 6 line) of
              Inl err \<Rightarrow> Fatalf (''failed to decode message on line '' @ Itoa (tv_lineNo st)
                                   @ '': '' @ err)
            | Inr m \<Rightarrow> Proceed (st\<lparr>tv_msg := m\<rparr>))
      else if prefix ''Qx = '' line
      then (case fromHex env (drop 5 line) of
              Return v \<Rightarrow> Proceed (st\<lparr>tv_pub := (tv_pub st)\<lparr>X := v\<rparr>\<rparr>)
            | Panic m \<Rightarrow> Panicked m | Crash m \<Rightarrow> Panicked m)
      else if prefix ''Qy = '' line
      then (case fromHex env (drop 5 line) of
              Return v \<Rightarrow> Proceed (st\<lparr>tv_pub := (tv_pub st)\<lparr>Y := v\<rparr>\<rparr>)
            | Panic m \<Rightarrow> Panicked m | Crash m \<Rightarrow> Panicked m)
      else if prefix ''R = '' line
      then (case fromHex env (drop 4 line) of
              Return v \<Rightarrow> Proceed (st\<lparr>tv_r := v\<rparr>)
            | Panic m \<Rightarrow> Panicked m | Crash m \<Rightarrow> Panicked m)
      else if prefix ''S = '' line
      then (case fromHex env (drop 4 line) of
              Return v \<Rightarrow> Proceed (st\<lparr>tv_s := v\<rparr>)
            | Panic m \<Rightarrow> Panicked m | Crash m \<Rightarrow> Panicked m)
      else if prefix ''Result = '' line
      then TestVectors_result env st h line
      else Fatalf (''unknown variable on line '' @ Itoa (tv_lineNo st) @ '': '' @ line))"

text \<open>
  The body of the loop for one line as \<^verbatim>\<open>ReadString\<close> returned it, with its line end.
\<close>
definition TestVectors_line :: "ecdsa_env \<Rightarrow> vectors \<Rightarrow> string \<Rightarrow> progress" where
  "TestVectors_line env st0 line0 =
     (let st = st0\<lparr>tv_lineNo := tv_lineNo st0 + 1\<rparr>
      in if \<not> suffix [CHR 0x0D, CHR 0x0A] line0
         then Fatalf (''bad line ending (expected '' @ [CHR 0x5C, CHR ''r'', CHR 0x5C, CHR ''n'']
                   @ '') on line '' @ Itoa (tv_lineNo st))
         else
           (let line = take (length line0 - 2) line0
            in if length line = 0 \<or> line ! 0 = CHR ''#'' then Proceed st
               else if line ! 0 = CHR ''['' then TestVectors_header env st line
               else (case tv_h st of
                       None \<Rightarrow> Proceed st
                     | Some h \<Rightarrow>
                         if Curve (tv_pub st) = None then Proceed st
                         else TestVectors_variable env st h line)))"

text \<open>
  The loop over the lines read. When \<^verbatim>\<open>ReadString\<close> returns nothing the loop ends, with
  a failure unless the reader is at the end of the file (\<open>at_EOF\<close>).
\<close>
fun TestVectors_loop :: "ecdsa_env \<Rightarrow> vectors \<Rightarrow> string list \<Rightarrow> bool \<Rightarrow> progress" where
  "TestVectors_loop env st [] at_EOF =
     (if at_EOF then Proceed st else Fatalf ''error reading from input'')"
| "TestVectors_loop env st (line # rest) at_EOF =
     (if length line = 0
      then (if at_EOF then Proceed st else Fatalf ''error reading from input'')
      else (case TestVectors_line env st line of
              Proceed st' \<Rightarrow> TestVectors_loop env st' rest at_EOF
            | Fatalf m \<Rightarrow> Fatalf m
            | Panicked m \<Rightarrow> Panicked m))"

text \<open>The variables as \<^verbatim>\<open>TestVectors\<close> declares them before the loop.\<close>
definition vectors_init :: vectors where
  "vectors_init =
     \<lparr>tv_lineNo = 1, tv_h = None, tv_ch = 0, tv_msg = [], tv_hashed = [], tv_r = None,
      tv_s = None, tv_pub = \<lparr>Curve = None, X = None, Y = None\<rparr>\<rparr>"

text \<open>
  \<^verbatim>\<open>TestVectors\<close>, given whether the test runs in short mode, whether the file of
  vectors opens, and what the reader returns.
\<close>
definition TestVectors :: "ecdsa_env \<Rightarrow> bool \<Rightarrow> bool \<Rightarrow> string list \<Rightarrow> bool \<Rightarrow> progress" where
  "TestVectors env short opened lines at_EOF =
     (if short then Proceed vectors_init
      else if \<not> opened then Fatalf ''open testdata/SigVer.rsp.bz2''
      else TestVectors_loop env vectors_init lines at_EOF)"

text \<open>
  A line of the file as \<^verbatim>\<open>ReadString\<close> returns it: a name, the text after it, and the
  line end, a carriage return and a line feed.
\<close>
definition field_line :: "string \<Rightarrow> string \<Rightarrow> string" where
  "field_line name content = name @ content @ [CHR 0x0D, CHR 0x0A]"

text \<open>
  The line that opens a section, \<^verbatim>\<open>[curve,hash]\<close>, and the six lines of a record, in
  the order of the files of NIST.
\<close>
definition section_header :: "string \<Rightarrow> string \<Rightarrow> string" where
  "section_header cn hn = field_line ''['' (cn @ '','' @ hn @ '']'')"

definition record_lines ::
  "string \<Rightarrow> string \<Rightarrow> string \<Rightarrow> string \<Rightarrow> string \<Rightarrow> string \<Rightarrow> string list" where
  "record_lines m qx qy r s res =
     [field_line ''Msg = '' m, field_line ''Qx = '' qx, field_line ''Qy = '' qy,
      field_line ''R = '' r, field_line ''S = '' s, field_line ''Result = '' res]"

text \<open>
  The names by which the header of a section selects a curve and a hash, and the
  identifier of package \<^verbatim>\<open>crypto\<close> that the header stores in \<^verbatim>\<open>ch\<close> beside the hash.
\<close>
definition curve_name :: "curve \<Rightarrow> string" where
  "curve_name c =
     (case c of P224 \<Rightarrow> ''P-224'' | P256 \<Rightarrow> ''P-256'' | P384 \<Rightarrow> ''P-384'' | P521 \<Rightarrow> ''P-521'')"

definition hash_name :: "hash_fn \<Rightarrow> string" where
  "hash_name f =
     (case f of SHA1 \<Rightarrow> ''SHA-1'' | SHA224 \<Rightarrow> ''SHA-224'' | SHA256 \<Rightarrow> ''SHA-256''
      | SHA384 \<Rightarrow> ''SHA-384'' | SHA512 \<Rightarrow> ''SHA-512'')"

definition crypto_of :: "hash_fn \<Rightarrow> crypto_Hash" where
  "crypto_of f =
     (case f of SHA1 \<Rightarrow> crypto_SHA1 | SHA224 \<Rightarrow> crypto_SHA224 | SHA256 \<Rightarrow> crypto_SHA256
      | SHA384 \<Rightarrow> crypto_SHA384 | SHA512 \<Rightarrow> crypto_SHA512)"

text \<open>
  The two \<^verbatim>\<open>switch\<close> statements of the header case as functions of the name: the curve
  and the hash that a name selects, nil for any other name.
\<close>
definition curve_of :: "string \<Rightarrow> curve option" where
  "curve_of cn =
     (if cn = ''P-224'' then Some P224 else if cn = ''P-256'' then Some P256
      else if cn = ''P-384'' then Some P384 else if cn = ''P-521'' then Some P521 else None)"

definition hash_of :: "string \<Rightarrow> hash_fn option" where
  "hash_of hn =
     (if hn = ''SHA-1'' then Some SHA1 else if hn = ''SHA-224'' then Some SHA224
      else if hn = ''SHA-256'' then Some SHA256 else if hn = ''SHA-384'' then Some SHA384
      else if hn = ''SHA-512'' then Some SHA512 else None)"

text \<open>
  What the verification says of a record, for the curve and the hash of its section:
  \<^verbatim>\<open>HashVerify\<close> on the message, with the identifier of the hash, when the external
  library is enabled, and \<^verbatim>\<open>Verify\<close> on the digest of the message otherwise.
\<close>
definition record_verdict ::
  "ecdsa_env \<Rightarrow> curve \<Rightarrow> hash_fn \<Rightarrow> byte list \<Rightarrow> int \<Rightarrow> int \<Rightarrow> int \<Rightarrow> int \<Rightarrow> bool" where
  "record_verdict env c f msg qx qy r s =
     (if boring_Enabled env
      then HashVerify env \<lparr>Curve = Some c, X = Some qx, Y = Some qy\<rparr> msg (Some r) (Some s)
             (crypto_of f)
      else Verify env \<lparr>Curve = Some c, X = Some qx, Y = Some qy\<rparr> (hash_Sum env f msg)
             (Some r) (Some s))"

text \<open>
  Concrete inputs for the examples below: an environment in which \<^verbatim>\<open>Verify\<close> accepts
  everything and \<^verbatim>\<open>HashVerify\<close> nothing, without and with the external library; one in
  which \<^verbatim>\<open>Verify\<close> rejects everything; and the variables after the header of a section
  for P-256 and SHA-256 and one empty line.
\<close>
definition env_plain :: ecdsa_env where
  "env_plain =
     \<lparr>boring_Enabled = False,
      Verify = (\<lambda>k m r s. True),
      HashVerify = (\<lambda>k m r s c. False),
      hash_Sum = (\<lambda>f m. m),
      hex_DecodeString = (\<lambda>str. Inr []),
      big_SetString16 = (\<lambda>str. Some 0)\<rparr>"

definition env_boring :: ecdsa_env where
  "env_boring = env_plain\<lparr>boring_Enabled := True\<rparr>"

definition env_reject :: ecdsa_env where
  "env_reject = env_plain\<lparr>Verify := (\<lambda>k m r s. False)\<rparr>"

definition vectors_section :: vectors where
  "vectors_section =
     vectors_init\<lparr>tv_lineNo := 3, tv_h := Some SHA256, tv_ch := crypto_SHA256,
       tv_pub := \<lparr>Curve = Some P256, X = None, Y = None\<rparr>\<rparr>"

section \<open>The release script\<close>

text \<open>
  \<^verbatim>\<open>misc/boring/build.release\<close> is a shell script run under \<^verbatim>\<open>set -e\<close>. Every
  command line it runs is a value of \<open>command\<close>; a pipeline is one command line, and its
  status is that of its last command. What a command line does is not part of the script:
  \<open>run\<close> gives its exit status and its standard output. The script is embedded as a
  function from its arguments to the list of what it did, in order, and its exit status.
\<close>

datatype command =
    GitRevParse string
      \<comment> \<open>\<^verbatim>\<open>git rev-parse "$rev" | awk '{print substr($1, 1, 12)}'\<close>\<close>
  | GitLogTag string
      \<comment> \<open>\<^verbatim>\<open>git log --decorate=short --oneline "$rev" | grep 'tag: go' | sed 1q | sed ...\<close>\<close>
  | GitShowVersion string
      \<comment> \<open>\<^verbatim>\<open>git show "$commit:misc/boring/VERSION"\<close>\<close>
  | GrepReleases string
      \<comment> \<open>\<^verbatim>\<open>grep PATTERN RELEASES >/dev/null\<close>, with the pattern\<close>
  | GitLogCommit string
      \<comment> \<open>\<^verbatim>\<open>git log -n1 "$commit" >&2\<close>\<close>
  | MktempDir
      \<comment> \<open>\<^verbatim>\<open>mktemp -d\<close>\<close>
  | GoGetRelease string
      \<comment> \<open>\<^verbatim>\<open>(cd "$dir"; go get golang.org/x/build/cmd/release)\<close>\<close>
  | EchoPerl string
      \<comment> \<open>\<^verbatim>\<open>echo "$base" | perl -pe ...\<close>\<close>
  | Release string string string string
      \<comment> \<open>\<^verbatim>\<open>$dir/release -target TARGET -rev "$commit" -version "$version"\<close>\<close>
  | Ls string
      \<comment> \<open>\<^verbatim>\<open>ls -l FILE\<close>\<close>
  | HashSha256sum
      \<comment> \<open>\<^verbatim>\<open>hash sha256sum 2>/dev/null\<close>\<close>
  | Sha256sumAwk string
      \<comment> \<open>\<^verbatim>\<open>sha256sum FILE | awk '{print $1}'\<close>\<close>
  | ShasumAwk string
      \<comment> \<open>\<^verbatim>\<open>shasum -a 256 FILE | awk '{print $1}'\<close>\<close>
  | TarExtractGo string
      \<comment> \<open>\<^verbatim>\<open>tar -xzf FILE -O go/bin/go >/tmp/go.release.$$\<close>\<close>
  | GoToolNm
      \<comment> \<open>\<^verbatim>\<open>go tool nm /tmp/go.release.$$ >/tmp/go.nm.$$\<close>\<close>
  | GrepBoringCrypto
      \<comment> \<open>\<^verbatim>\<open>grep crypto/internal/boring/sig.BoringCrypto /tmp/go.nm.$$ >/dev/null\<close>\<close>
  | EgrepSha256Digest
      \<comment> \<open>\<^verbatim>\<open>egrep 'crypto/sha256\.\(\*digest\)' /tmp/go.nm.$$ >/dev/null\<close>\<close>
  | GsutilCp string
      \<comment> \<open>\<^verbatim>\<open>gsutil cp FILE gs://go-boringcrypto/\<close>\<close>
  | AppendReleases string
      \<comment> \<open>\<^verbatim>\<open>echo LINE >>RELEASES\<close>\<close>
  | RmRf string
      \<comment> \<open>\<^verbatim>\<open>rm -rf $dir\<close>, the first trap on exit\<close>
  | RmTmp
      \<comment> \<open>\<^verbatim>\<open>rm -f /tmp/go.release.$$ /tmp/go.nm.$$\<close>, the second trap on exit\<close>

text \<open>What the script did: a command line it ran, or a message on standard error.\<close>
datatype action = Ran command | Stderr string

type_synonym shell = "command \<Rightarrow> nat \<times> string"

text \<open>The command lines that build, publish or record a release.\<close>
definition builds_or_publishes :: "action \<Rightarrow> bool" where
  "builds_or_publishes a =
     (case a of
        Ran (GoGetRelease d) \<Rightarrow> True
      | Ran (Release d t c v) \<Rightarrow> True
      | Ran (TarExtractGo f) \<Rightarrow> True
      | Ran GoToolNm \<Rightarrow> True
      | Ran (GsutilCp f) \<Rightarrow> True
      | Ran (AppendReleases l) \<Rightarrow> True
      | _ \<Rightarrow> False)"

text \<open>
  Lines 13 to 42: the revision, the commit, the base release and the version of the
  cryptographic module, or the status the script exits with before it has them. Under
  \<^verbatim>\<open>set -e\<close> an assignment whose command fails ends the script with that status.
\<close>
definition determine ::
  "shell \<Rightarrow> string list \<Rightarrow> action list \<times> (nat + string \<times> string \<times> string)" where
  "determine run args =
     (if length args > 1
      then ([Stderr ''usage: build.release [git-rev]''], Inl 2)
      else
        (let rev = (if length args = 0 then ''HEAD'' else args ! 0);
             t1 = [Ran (GitRevParse rev)];
             commit = snd (run (GitRevParse rev))
         in if fst (run (GitRevParse rev)) \<noteq> 0 then (t1, Inl (fst (run (GitRevParse rev))))
            else if commit = ''''
            then (t1 @ [Stderr ''cannot find commit in git history''], Inl 2)
            else
              (let t2 = t1 @ [Ran (GitLogTag rev)];
                   base_tag = snd (run (GitLogTag rev))
               in if fst (run (GitLogTag rev)) \<noteq> 0 then (t2, Inl (fst (run (GitLogTag rev))))
                  else if base_tag = ''''
                  then (t2 @ [Stderr (''cannot find go release tag in git history for '' @ rev)],
                        Inl 2)
                  else
                    (let t3 = t2 @ [Ran (GitShowVersion commit)];
                         boring_version = snd (run (GitShowVersion commit))
                     in if fst (run (GitShowVersion commit)) \<noteq> 0
                        then (t3, Inl (fst (run (GitShowVersion commit))))
                        else if boring_version = ''''
                        then (t3 @ [Stderr (''missing BORINGVERSION file in '' @ commit)], Inl 2)
                        else (t3, Inr (commit, base_tag, boring_version))))))"

text \<open>
  A list of command lines run in order under \<^verbatim>\<open>set -e\<close>: the first that fails ends the
  script with its status, unless it is the condition of an \<^verbatim>\<open>if\<close> (marked \<open>False\<close>).
  The result is what was run and the failing status, if any.
\<close>
fun run_all :: "shell \<Rightarrow> (command \<times> bool) list \<Rightarrow> action list \<times> nat option" where
  "run_all run [] = ([], None)"
| "run_all run ((c, chk) # cs) =
     (if chk \<and> fst (run c) \<noteq> 0 then ([Ran c], Some (fst (run c)))
      else (case run_all run cs of (t, r) \<Rightarrow> (Ran c # t, r)))"

definition checked :: "command list \<Rightarrow> (command \<times> bool) list" where
  "checked cs = map (\<lambda>c. (c, True)) cs"

text \<open>
  The shell function \<^verbatim>\<open>sha\<close> in a pipeline with \<^verbatim>\<open>awk\<close>: the test for
  \<^verbatim>\<open>sha256sum\<close>, then the tool chosen.
\<close>
definition sha :: "shell \<Rightarrow> string \<Rightarrow> (command \<times> bool) list" where
  "sha run file =
     (if fst (run HashSha256sum) = 0
      then [(HashSha256sum, False), (Sha256sumAwk file, True)]
      else [(HashSha256sum, False), (ShasumAwk file, True)])"

text \<open>
  Lines 51 to 104: building, checking and publishing the release. The trap set at line
  61 runs when the script exits before line 84, the trap set at line 84 afterwards.
\<close>
definition build_and_publish ::
  "shell \<Rightarrow> string \<Rightarrow> string \<Rightarrow> string \<Rightarrow> action list \<times> nat" where
  "build_and_publish run commit base_tag version =
     (case run_all run (checked [GitLogCommit commit, MktempDir]) of
        (t0, Some status) \<Rightarrow> (Stderr (''building '' @ version @ '' from '' @ commit) # t0, status)
      | (t0, None) \<Rightarrow>
     (let dir = snd (run MktempDir);
          output = version @ ''.linux-amd64.tar.gz'';
          outputsrc = version @ ''.src.tar.gz'';
          t1 = Stderr (''building '' @ version @ '' from '' @ commit) # t0
      in case run_all run
                (checked [GoGetRelease dir, EchoPerl base_tag,
                          Release dir ''linux-amd64'' commit version,
                          Release dir ''src'' commit version,
                          Ls output]
                 @ sha run output @ checked [Ls outputsrc] @ sha run outputsrc) of
           (t2, Some status) \<Rightarrow> (t1 @ t2 @ [Ran (RmRf dir)], status)
         | (t2, None) \<Rightarrow>
     (let sha256 = snd (run (fst (last (sha run output))));
          sha256src = snd (run (fst (last (sha run outputsrc))))
      in case run_all run (checked [TarExtractGo output, GoToolNm]) of
           (t3, Some status) \<Rightarrow> (t1 @ t2 @ t3 @ [Ran RmTmp], status)
         | (t3, None) \<Rightarrow>
             if fst (run GrepBoringCrypto) \<noteq> 0
             then (t1 @ t2 @ t3 @
                   [Ran GrepBoringCrypto,
                    Stderr ''built release but did NOT find sig.BoringCrypto in go command!'',
                    Ran RmTmp], 2)
             else if fst (run EgrepSha256Digest) = 0
             then (t1 @ t2 @ t3 @
                   [Ran GrepBoringCrypto, Ran EgrepSha256Digest,
                    Stderr ''built release but DID find sha256.(*digest) in go command unexpectedly!'',
                    Ran RmTmp], 2)
             else
               (let url = ''https://go-boringcrypto.storage.googleapis.com/'' @ output;
                    urlsrc = ''https://go-boringcrypto.storage.googleapis.com/'' @ outputsrc
                in case run_all run (checked
                          [GsutilCp output, GsutilCp outputsrc,
                           AppendReleases (version @ '' '' @ commit @ '' linux-amd64 '' @ url
                             @ '' '' @ sha256),
                           AppendReleases (version @ '' '' @ commit @ '' src '' @ urlsrc
                             @ '' '' @ sha256src)]) of
                     (t4, Some status) \<Rightarrow>
                       (t1 @ t2 @ t3 @ [Ran GrepBoringCrypto, Ran EgrepSha256Digest] @ t4
                          @ [Ran RmTmp], status)
                   | (t4, None) \<Rightarrow>
                       (t1 @ t2 @ t3 @ [Ran GrepBoringCrypto, Ran EgrepSha256Digest] @ t4
                          @ [Ran RmTmp], 0)))))"

text \<open>
  The script. Lines 44 to 49 look the version up in \<^verbatim>\<open>RELEASES\<close> with
  \<^verbatim>\<open>grep "^$version "\<close>; \<^verbatim>\<open>grep\<close> exits with status 0 when a line matches.
\<close>
definition build_release :: "shell \<Rightarrow> string list \<Rightarrow> action list \<times> nat" where
  "build_release run args =
     (case determine run args of
        (t, Inl status) \<Rightarrow> (t, status)
      | (t, Inr (commit, base_tag, boring_version)) \<Rightarrow>
          (let version = base_tag @ ''b'' @ boring_version
           in if fst (run (GrepReleases (''^'' @ version @ '' ''))) = 0
              then (t @ [Ran (GrepReleases (''^'' @ version @ '' '')),
                         Stderr (''found '' @ version @ '' in RELEASES - not rereleasing'')], 2)
              else (case build_and_publish run commit base_tag version of
                      (t', status) \<Rightarrow>
                        (t @ [Ran (GrepReleases (''^'' @ version @ '' ''))] @ t', status))))"

text \<open>
  The version the script computes, when it gets as far: the base Go tag, then \<^verbatim>\<open>b\<close>,
  then the version of the cryptographic module.
\<close>
definition release_version :: "shell \<Rightarrow> string list \<Rightarrow> string option" where
  "release_version run args =
     (case determine run args of
        (t, Inl status) \<Rightarrow> None
      | (t, Inr (commit, base_tag, boring_version)) \<Rightarrow> Some (base_tag @ ''b'' @ boring_version))"

text \<open>A shell for the examples: every command succeeds, and the release is new.\<close>
definition shell_ok :: shell where
  "shell_ok c =
     (case c of
        GitRevParse r \<Rightarrow> (0, ''0123456789ab'')
      | GitLogTag r \<Rightarrow> (0, ''go1.12.1'')
      | GitShowVersion commit \<Rightarrow> (0, ''4'')
      | GrepReleases pat \<Rightarrow> (1, '''')
      | EgrepSha256Digest \<Rightarrow> (1, '''')
      | MktempDir \<Rightarrow> (0, ''/tmp/tmp.1'')
      | _ \<Rightarrow> (0, ''''))"

text \<open>The same shell with the release already in \<^verbatim>\<open>RELEASES\<close>.\<close>
definition shell_released :: shell where
  "shell_released c =
     (case c of GrepReleases pat \<Rightarrow> (0, '''') | _ \<Rightarrow> shell_ok c)"

section \<open>Properties of the binding\<close>

subsection \<open>Lemmas on the byte representation\<close>

lemma bytes_to_nat_snoc: "bytes_to_nat (bs @ [b]) = bytes_to_nat bs * 256 + unat b"
  by (simp add: bytes_to_nat_def)

lemma bytes_to_nat_nat_to_bytes: "bytes_to_nat (nat_to_bytes n) = n"
proof (induction n rule: nat_to_bytes.induct)
  case (1 n)
  show ?case
  proof (cases "n = 0")
    case True
    then show ?thesis by (simp add: nat_to_bytes.simps bytes_to_nat_def)
  next
    case False
    have low: "unat (of_nat (n mod 256) :: byte) = n mod 256"
      by (simp add: unat_of_nat)
    from False have "nat_to_bytes n = nat_to_bytes (n div 256) @ [of_nat (n mod 256)]"
      by (subst nat_to_bytes.simps) simp
    with 1 False low show ?thesis
      by (simp add: bytes_to_nat_snoc)
  qed
qed

lemma nat_to_bytes_head: "n \<noteq> 0 \<Longrightarrow> nat_to_bytes n \<noteq> [] \<and> hd (nat_to_bytes n) \<noteq> 0"
proof (induction n rule: nat_to_bytes.induct)
  case (1 n)
  from 1(2) have unfold: "nat_to_bytes n = nat_to_bytes (n div 256) @ [of_nat (n mod 256)]"
    by (subst nat_to_bytes.simps) simp
  show ?case
  proof (cases "n div 256 = 0")
    case True
    then have small: "n < 256" by (simp add: div_eq_0_iff)
    have "nat_to_bytes (n div 256) = []"
      using True by (simp add: nat_to_bytes.simps)
    moreover have "(of_nat n :: byte) \<noteq> 0"
      using small 1(2) by (intro of_nat_neq_0) simp_all
    ultimately show ?thesis using unfold small by simp
  next
    case False
    with 1 have "nat_to_bytes (n div 256) \<noteq> [] \<and> hd (nat_to_bytes (n div 256)) \<noteq> 0"
      by simp
    then show ?thesis using unfold by simp
  qed
qed

lemma dropWhile_nat_to_bytes: "dropWhile (\<lambda>b. b = 0) (nat_to_bytes n) = nat_to_bytes n"
proof (cases "n = 0")
  case True
  then show ?thesis by (simp add: nat_to_bytes.simps)
next
  case False
  then have "nat_to_bytes n \<noteq> [] \<and> hd (nat_to_bytes n) \<noteq> 0"
    by (rule nat_to_bytes_head)
  then show ?thesis by (cases "nat_to_bytes n") simp_all
qed

subsection \<open>Marshalling is the identity\<close>

text \<open>
  Claim C2. For every non-negative big integer \<open>x\<close>, marshalling \<open>x\<close> across the boundary and
  back is the identity: \<^verbatim>\<open>bnToBig(bigToBN(x))\<close> returns (a pointer to) \<open>x\<close>, the foreign
  big number being the minimal big-endian byte representation of \<open>x\<close>.
\<close>
theorem bnToBig_bigToBN:
  "0 \<le> x \<Longrightarrow> and_then (bigToBN (Some x)) bnToBig = Return (Some x)"
proof -
  assume nonneg: "0 \<le> x"
  let ?raw = "nat_to_bytes (nat x)"
  have bn: "bigToBN (Some x) = Return (Some ?raw)"
    using nonneg by (simp add: bigToBN_def big_Int_Bytes_def BN_bin2bn_def base_def
      dropWhile_nat_to_bytes)
  have "bnToBig (Some ?raw) = Return (Some (int (bytes_to_nat ?raw)))"
    by (simp add: bnToBig_def BN_num_bytes_def BN_bn2bin_def base_def big_Int_SetBytes_def)
  then show ?thesis
    using nonneg bn by (simp add: and_then_def bytes_to_nat_nat_to_bytes)
qed

theorem bnToBig_bigToBN_witness:
  "(0::int) \<le> 65537 \<and> and_then (bigToBN (Some 65537)) bnToBig = Return (Some 65537)"
  using bnToBig_bigToBN [of 65537] by simp

subsection \<open>Small evaluations\<close>

lemma replicate_4: "replicate 4 x = [x, x, x, x]"
  by (simp add: numeral_eq_Suc)

lemma replicate_3: "replicate 3 x = [x, x, x]"
  by (simp add: numeral_eq_Suc)

lemma Itoa_2: "Itoa 2 = ''2''"
  by code_simp

lemma lib_ok_sel:
  "C_EVP_PKEY_new lib_ok = Some 2" "C_EVP_PKEY_CTX_new lib_ok p = Some 3"
  "C_malloc lib_ok n = Some 4" "C_RSA_size lib_ok k = 4" "C_RSA_new lib_ok = Some 7"
  by (simp_all add: lib_ok_def)

lemma pk_ok_sel:
  "hashToMD pk_ok (Some 7) = Some 10" "cryptoHashToMD pk_ok 5 = Some 10"
  "cryptoHashToMD pk_ok 7 = None"
  by (simp_all add: pk_ok_def)

subsection \<open>Unsupported hash functions\<close>

text \<open>
  Claim C1. When \<^verbatim>\<open>cryptoHashToMD\<close> yields no message digest for the hash, each of
  \<^verbatim>\<open>SignRSAPSS\<close>, \<^verbatim>\<open>VerifyRSAPSS\<close>, \<^verbatim>\<open>SignRSAPKCS1v15\<close> and \<^verbatim>\<open>VerifyRSAPKCS1v15\<close>
  returns an "unsupported hash function" error, with a nil signature from the two signing
  functions, and calls no foreign signing or verification routine. The two PKCS1v15
  functions have asked the library for the key size by then, and the message of
  \<^verbatim>\<open>SignRSAPKCS1v15\<close> ends with the number of the hash.
\<close>
theorem unsupported_hash_function:
  assumes "cryptoHashToMD pk h = None"
  shows
    "SignRSAPSS lib pk priv h hashed saltLen =
       ([], Return (None, Some (errors_New ''crypto/rsa: unsupported hash function''))) \<and>
     VerifyRSAPSS lib pk pub h hashed sig saltLen =
       ([], Return (Some (errors_New ''crypto/rsa: unsupported hash function''))) \<and>
     SignRSAPKCS1v15 lib pk priv h msg b =
       ([RSA_size (PrivateKeyRSA.key priv)],
        Return (None, Some (errors_New
          (''crypto/rsa: unsupported hash function'' @ '': '' @ Itoa (sint h))))) \<and>
     VerifyRSAPKCS1v15 lib pk pub h msg sig b =
       ([RSA_size (PublicKeyRSA.key pub)],
        Return (Some (errors_New ''crypto/rsa: unsupported hash function''))) \<and>
     filter sign_or_verify (fst (SignRSAPSS lib pk priv h hashed saltLen)) = [] \<and>
     filter sign_or_verify (fst (VerifyRSAPSS lib pk pub h hashed sig saltLen)) = [] \<and>
     filter sign_or_verify (fst (SignRSAPKCS1v15 lib pk priv h msg b)) = [] \<and>
     filter sign_or_verify (fst (VerifyRSAPKCS1v15 lib pk pub h msg sig b)) = []"
  using assms
  by (simp add: SignRSAPSS_def VerifyRSAPSS_def SignRSAPKCS1v15_def VerifyRSAPKCS1v15_def
      sign_or_verify_def)

theorem unsupported_hash_function_witness:
  "cryptoHashToMD pk_ok 7 = None \<and>
   SignRSAPSS lib_ok pk_ok \<lparr>PrivateKeyRSA.key = Some 7\<rparr> 7 [1, 2] 32 =
     ([], Return (None, Some (errors_New ''crypto/rsa: unsupported hash function''))) \<and>
   VerifyRSAPKCS1v15 lib_ok pk_ok \<lparr>PublicKeyRSA.key = Some 7\<rparr> 7 [1, 2] [3] False =
     ([RSA_size (Some 7)],
      Return (Some (errors_New ''crypto/rsa: unsupported hash function'')))"
  using unsupported_hash_function [OF pk_ok_sel(3), of lib_ok "\<lparr>PrivateKeyRSA.key = Some 7\<rparr>" "[1, 2]" 32
      "\<lparr>PublicKeyRSA.key = Some 7\<rparr>" "[3]" "[1, 2]" False]
  by (simp add: pk_ok_sel)

subsection \<open>The deferred cleanup of the setup\<close>

text \<open>
  An error return of the body stores nil in both handles, so the deferred function
  finds nothing to free: \<^verbatim>\<open>setupRSA\<close> behaves as its body alone.
\<close>
lemma setupRSA_body_error_nil:
  "setupRSA_body lib pk k padding h label saltLen ch init = (t, Return (pkey, ctx, Some e))
     \<Longrightarrow> pkey = None \<and> ctx = None"
  by (auto simp add: setupRSA_body_def Let_def
      split: prod.splits outcome.splits option.splits if_splits)

lemma setupRSA_error_nil:
  "setupRSA lib pk k padding h label saltLen ch init = (t, Return (pkey, ctx, Some e))
     \<Longrightarrow> pkey = None \<and> ctx = None"
  by (auto simp add: setupRSA_def setupRSA_deferred_def
      split: prod.splits outcome.splits option.splits if_splits)

lemma setupRSA_deferred_after_return:
  assumes "setupRSA_body lib pk k padding h label saltLen ch init = (t, Return r)"
  shows "setupRSA_deferred r = ([], r)"
proof -
  obtain pkey ctx err where r: "r = (pkey, ctx, err)"
    by (cases r) auto
  show ?thesis
  proof (cases err)
    case None
    with r show ?thesis by (simp add: setupRSA_deferred_def)
  next
    case (Some e)
    with assms r have "pkey = None \<and> ctx = None"
      by (auto dest: setupRSA_body_error_nil)
    with r Some show ?thesis by (simp add: setupRSA_deferred_def)
  qed
qed

lemma setupRSA_eq_body:
  "setupRSA lib pk k padding h label saltLen ch init =
     setupRSA_body lib pk k padding h label saltLen ch init"
proof (cases "setupRSA_body lib pk k padding h label saltLen ch init")
  case (Pair t r)
  show ?thesis
  proof (cases r)
    case (Return v)
    with Pair have "setupRSA_deferred v = ([], v)"
      by (auto dest: setupRSA_deferred_after_return)
    with Pair Return show ?thesis by (simp add: setupRSA_def)
  next
    case (Panic m)
    with Pair show ?thesis by (simp add: setupRSA_def)
  next
    case (Crash m)
    with Pair show ?thesis by (simp add: setupRSA_def)
  qed
qed

text \<open>Neither block of the setup, and so no run of the setup, frees anything.\<close>

lemma setupRSA_oaep_frees: "filter frees (fst (setupRSA_oaep lib pk ctx h label)) = []"
  by (simp add: setupRSA_oaep_def Let_def frees_def)

lemma setupRSA_pss_frees: "filter frees (fst (setupRSA_pss lib pk ctx saltLen ch)) = []"
  by (simp add: setupRSA_pss_def Let_def frees_def)

lemma frees_simps:
  "\<not> frees EVP_PKEY_new" "\<not> frees (EVP_PKEY_set1_RSA p k)" "\<not> frees (EVP_PKEY_CTX_new p)"
  "\<not> frees (EVP_PKEY_CTX_set_rsa_padding c f)"
  by (simp_all add: frees_def)

lemma setupRSA_never_frees:
  assumes "init = decryptInit lib \<or> init = encryptInit lib"
  shows "filter frees (fst (setupRSA lib pk k padding h label saltLen ch init)) = []"
proof -
  have "filter frees (fst (init c)) = []" for c
    using assms by (auto simp add: decryptInit_def encryptInit_def frees_def)
  then show ?thesis
    by (simp add: setupRSA_eq_body setupRSA_body_def Let_def split_def frees_simps
        setupRSA_oaep_frees setupRSA_pss_frees
        split: outcome.split option.split)
qed

text \<open>
  Claim C3. The claim is that whenever \<^verbatim>\<open>setupRSA\<close> returns an error, both handles it
  returns are nil and the objects it allocated have been freed. The handles are nil
  (\<open>setupRSA_error_nil\<close>), but nothing is ever freed (\<open>setupRSA_never_frees\<close>): when \<^verbatim>\<open>EVP_PKEY_new\<close> succeeds and
  \<^verbatim>\<open>EVP_PKEY_set1_RSA\<close> fails, the calls made are these two and no
  \<^verbatim>\<open>EVP_PKEY_free\<close>, so the key object at address 2 is left allocated.
\<close>
theorem setupRSA_error_frees_nothing:
  "setupRSA (lib_ok\<lparr>C_EVP_PKEY_set1_RSA := (\<lambda>p k. 0)\<rparr>) pk_ok (Some 7)
       GO_RSA_PKCS1_PADDING None [] 0 0 (decryptInit lib_ok) =
     ([EVP_PKEY_new, EVP_PKEY_set1_RSA (Some 2) (Some 7)],
      Return (None, None, Some (NewOpenSSLError ''EVP_PKEY_set1_RSA failed'')))"
  by (simp add: setupRSA_def setupRSA_body_def setupRSA_deferred_def lib_ok_def)

subsection \<open>The calls of the encryption and decryption operations\<close>

lemma padding_flags_simps:
  "padding_flags [] = []"
  "padding_flags (a @ b) = padding_flags a @ padding_flags b"
  "padding_flags (e # b) =
     (case padding_flag e of None \<Rightarrow> padding_flags b | Some p \<Rightarrow> p # padding_flags b)"
  by (simp_all add: padding_flags_def List.map_filter_def split: option.splits)

lemma passed_msgs_simps:
  "passed_msgs [] = []"
  "passed_msgs (a @ b) = passed_msgs a @ passed_msgs b"
  "passed_msgs (e # b) =
     (case passed_msg e of None \<Rightarrow> passed_msgs b | Some p \<Rightarrow> p # passed_msgs b)"
  by (simp_all add: passed_msgs_def List.map_filter_def split: option.splits)

lemma passed_sigs_simps:
  "passed_sigs [] = []"
  "passed_sigs (a @ b) = passed_sigs a @ passed_sigs b"
  "passed_sigs (e # b) = (case passed_sig e of None \<Rightarrow> passed_sigs b | Some p \<Rightarrow> p # passed_sigs b)"
  by (simp_all add: passed_sigs_def List.map_filter_def split: option.splits)

text \<open>
  The calls of the two blocks of the setup, and of the function values that
  \<^verbatim>\<open>cryptRSA\<close> is given.
\<close>
lemma setupRSA_oaep_calls:
  assumes "setupRSA_oaep lib pk ctx h label = (t, r)"
  shows "padding_flags t = [] \<and> passed_msgs t = [] \<and> passed_sigs t = [] \<and>
     (r = Return None \<longrightarrow>
        filter oaep_setup t =
          [EVP_PKEY_CTX_set_rsa_oaep_md ctx (hashToMD pk h),
           EVP_PKEY_CTX_set0_rsa_oaep_label ctx (C_malloc lib (of_nat (length label))) label
             (of_nat (length label))])"
  using assms
  by (auto simp add: setupRSA_oaep_def Let_def padding_flags_simps padding_flag_def
      passed_msgs_simps passed_msg_def passed_sigs_simps passed_sig_def oaep_setup_def
      split: if_splits)

lemma setupRSA_pss_calls:
  assumes "setupRSA_pss lib pk ctx saltLen ch = (t, r)"
  shows "padding_flags t = [] \<and> passed_msgs t = [] \<and> passed_sigs t = [] \<and>
     filter oaep_setup t = []"
  using assms
  by (auto simp add: setupRSA_pss_def Let_def padding_flags_simps padding_flag_def
      passed_msgs_simps passed_msg_def passed_sigs_simps passed_sig_def oaep_setup_def
      split: if_splits)

lemma init_calls:
  assumes "init = decryptInit lib \<or> init = encryptInit lib"
  shows "padding_flags (fst (init c)) = [] \<and> passed_msgs (fst (init c)) = [] \<and>
     passed_sigs (fst (init c)) = [] \<and> filter oaep_setup (fst (init c)) = []"
  using assms
  by (auto simp add: decryptInit_def encryptInit_def padding_flags_simps padding_flag_def
      passed_msgs_simps passed_msg_def passed_sigs_simps passed_sig_def oaep_setup_def)

lemma crypt_calls:
  assumes "crypt = decrypt lib \<or> crypt = encrypt lib"
    and "crypt c out outLen m n = (t, r)"
  shows "padding_flags t = [] \<and> passed_msgs t = [(m, n)] \<and>
     passed_sigs t = [] \<and> filter oaep_setup t = []"
  using assms
  by (auto simp add: decrypt_def encrypt_def padding_flags_simps padding_flag_def
      passed_msgs_simps passed_msg_def passed_sigs_simps passed_sig_def oaep_setup_def)

lemma setupRSA_calls:
  assumes init: "init = decryptInit lib \<or> init = encryptInit lib"
    and s: "setupRSA lib pk k padding h label saltLen ch init = (t, r)"
  shows "set (padding_flags t) \<subseteq> {padding} \<and> passed_msgs t = [] \<and> passed_sigs t = [] \<and>
     (padding \<noteq> GO_RSA_PKCS1_OAEP_PADDING \<longrightarrow> filter oaep_setup t = []) \<and>
     (\<forall>pkey ctx. r = Return (pkey, ctx, None) \<longrightarrow>
        pkey = C_EVP_PKEY_new lib \<and> ctx = C_EVP_PKEY_CTX_new lib pkey \<and>
        padding_flags t = [padding] \<and>
        (padding = GO_RSA_PKCS1_OAEP_PADDING \<longrightarrow>
           filter oaep_setup t =
             [EVP_PKEY_CTX_set_rsa_oaep_md ctx (hashToMD pk h),
              EVP_PKEY_CTX_set0_rsa_oaep_label ctx (C_malloc lib (of_nat (length label))) label
                (of_nat (length label))]))"
  using s init_calls [OF init]
  by (auto simp add: setupRSA_eq_body setupRSA_body_def Let_def padding_flags_simps
      padding_flag_def passed_msgs_simps passed_msg_def passed_sigs_simps passed_sig_def
      oaep_setup_def
      split: prod.splits outcome.splits option.splits if_splits
      dest!: setupRSA_oaep_calls setupRSA_pss_calls)

text \<open>
  The calls of the setup, in full, and from them what \<^verbatim>\<open>cryptRSA\<close> passes on.
\<close>
lemma flags_distinct2: "GO_RSA_PKCS1_OAEP_PADDING \<noteq> GO_RSA_PKCS1_PSS_PADDING"
  by (simp add: GO_RSA_PKCS1_OAEP_PADDING_def GO_RSA_PKCS1_PSS_PADDING_def)

lemma setupRSA_trace:
  "fst (setupRSA lib pk k padding h label saltLen ch init) =
     (if C_EVP_PKEY_new lib = None then [EVP_PKEY_new]
      else if C_EVP_PKEY_set1_RSA lib (C_EVP_PKEY_new lib) k = 0
      then [EVP_PKEY_new, EVP_PKEY_set1_RSA (C_EVP_PKEY_new lib) k]
      else if C_EVP_PKEY_CTX_new lib (C_EVP_PKEY_new lib) = None
      then [EVP_PKEY_new, EVP_PKEY_set1_RSA (C_EVP_PKEY_new lib) k,
            EVP_PKEY_CTX_new (C_EVP_PKEY_new lib)]
      else [EVP_PKEY_new, EVP_PKEY_set1_RSA (C_EVP_PKEY_new lib) k,
            EVP_PKEY_CTX_new (C_EVP_PKEY_new lib)] @
           fst (init (C_EVP_PKEY_CTX_new lib (C_EVP_PKEY_new lib))) @
           (if snd (init (C_EVP_PKEY_CTX_new lib (C_EVP_PKEY_new lib))) = 0 then []
            else EVP_PKEY_CTX_set_rsa_padding (C_EVP_PKEY_CTX_new lib (C_EVP_PKEY_new lib)) padding #
              (if C_EVP_PKEY_CTX_set_rsa_padding lib (C_EVP_PKEY_CTX_new lib (C_EVP_PKEY_new lib))
                    padding = 0 then []
               else if padding = GO_RSA_PKCS1_OAEP_PADDING
               then fst (setupRSA_oaep lib pk (C_EVP_PKEY_CTX_new lib (C_EVP_PKEY_new lib)) h label)
               else if padding = GO_RSA_PKCS1_PSS_PADDING
               then fst (setupRSA_pss lib pk (C_EVP_PKEY_CTX_new lib (C_EVP_PKEY_new lib))
                      saltLen ch)
               else [])))"
  using flags_distinct2
  by (simp add: setupRSA_eq_body setupRSA_body_def Let_def split_def
      split: outcome.split option.split)

lemma setupRSA_oaep_filter:
  "filter oaep_setup
     (fst (setupRSA_oaep lib pk (C_EVP_PKEY_CTX_new lib (C_EVP_PKEY_new lib)) h label)) =
   oaep_calls lib pk h label"
  by (simp add: setupRSA_oaep_def oaep_calls_def Let_def oaep_setup_def)

lemma setupRSA_pss_filter:
  "filter oaep_setup (fst (setupRSA_pss lib pk ctx saltLen ch)) = []"
  "padding_flags (fst (setupRSA_pss lib pk ctx saltLen ch)) = []"
  "padding_flags (fst (setupRSA_oaep lib pk ctx h label)) = []"
  by (simp_all add: setupRSA_pss_def setupRSA_oaep_def Let_def oaep_setup_def
      padding_flags_simps padding_flag_def)

lemma setupRSA_flags_exact:
  assumes "init = decryptInit lib \<or> init = encryptInit lib"
  shows "padding_flags (fst (setupRSA lib pk k padding h label saltLen ch init)) =
           (if reaches_padding lib k init then [padding] else [])"
    and "filter oaep_setup (fst (setupRSA lib pk k padding h label saltLen ch init)) =
           (if padding = GO_RSA_PKCS1_OAEP_PADDING \<and> padding_accepted lib k init padding
            then oaep_calls lib pk h label else [])"
proof -
  note i = init_calls [OF assms]
  show "padding_flags (fst (setupRSA lib pk k padding h label saltLen ch init)) =
           (if reaches_padding lib k init then [padding] else [])"
    unfolding setupRSA_trace
    by (simp add: reaches_padding_def padding_flags_simps padding_flag_def i
        setupRSA_pss_filter)
  show "filter oaep_setup (fst (setupRSA lib pk k padding h label saltLen ch init)) =
           (if padding = GO_RSA_PKCS1_OAEP_PADDING \<and> padding_accepted lib k init padding
            then oaep_calls lib pk h label else [])"
    unfolding setupRSA_trace
    by (auto simp add: reaches_padding_def padding_accepted_def oaep_setup_def i
        setupRSA_pss_filter setupRSA_oaep_filter flags_distinct2)
qed



lemma cryptRSA_trace:
  "fst (cryptRSA lib pk k padding h label saltLen ch init crypt inp) =
     fst (setupRSA lib pk k padding h label saltLen ch init) @
     (case snd (setupRSA lib pk k padding h label saltLen ch init) of
        Return (pkey, ctx, None) \<Rightarrow>
          fst (crypt ctx [] 0 inp (of_nat (length inp))) @
          (if fst (snd (crypt ctx [] 0 inp (of_nat (length inp)))) = 0 then []
           else fst (crypt ctx
                  (replicate (unat (fst (snd (snd (crypt ctx [] 0 inp (of_nat (length inp))))))) 0)
                  (fst (snd (snd (crypt ctx [] 0 inp (of_nat (length inp))))))
                  inp (of_nat (length inp)))) @
          [EVP_PKEY_CTX_free ctx, EVP_PKEY_free pkey]
      | _ \<Rightarrow> [])"
  by (simp add: cryptRSA_def Let_def split_def base_def
      split: prod.splits outcome.splits option.splits)

lemma cryptRSA_exact:
  assumes w: "init = decryptInit lib \<and> crypt = decrypt lib \<or>
              init = encryptInit lib \<and> crypt = encrypt lib"
  shows "padding_flags (fst (cryptRSA lib pk k padding h label saltLen ch init crypt inp)) =
           (if reaches_padding lib k init then [padding] else []) \<and>
         filter oaep_setup (fst (cryptRSA lib pk k padding h label saltLen ch init crypt inp)) =
           (if padding = GO_RSA_PKCS1_OAEP_PADDING \<and> padding_accepted lib k init padding
            then oaep_calls lib pk h label else []) \<and>
         passed_msgs (fst (cryptRSA lib pk k padding h label saltLen ch init crypt inp)) =
           crypt_msgs (setupRSA lib pk k padding h label saltLen ch init) crypt inp \<and>
         passed_sigs (fst (cryptRSA lib pk k padding h label saltLen ch init crypt inp)) = []"
proof -
  from w have init: "init = decryptInit lib \<or> init = encryptInit lib"
    by auto
  note f = setupRSA_flags_exact [OF init, of pk k padding h label saltLen ch]
  from setupRSA_calls [OF init surjective_pairing, of pk k padding h label saltLen ch]
  have m: "passed_msgs (fst (setupRSA lib pk k padding h label saltLen ch init)) = []"
    "passed_sigs (fst (setupRSA lib pk k padding h label saltLen ch init)) = []"
    by simp_all
  from w show ?thesis
  proof
    assume "init = decryptInit lib \<and> crypt = decrypt lib"
    then show ?thesis
      unfolding cryptRSA_trace
      using f m
      by (simp add: decrypt_def crypt_msgs_def padding_flags_simps padding_flag_def
          passed_msgs_simps passed_msg_def passed_sigs_simps passed_sig_def oaep_setup_def
          split: outcome.split option.split)
  next
    assume "init = encryptInit lib \<and> crypt = encrypt lib"
    then show ?thesis
      unfolding cryptRSA_trace
      using f m
      by (simp add: encrypt_def crypt_msgs_def padding_flags_simps padding_flag_def
          passed_msgs_simps passed_msg_def passed_sigs_simps passed_sig_def oaep_setup_def
          split: outcome.split option.split)
  qed
qed










lemma VerifyRSAPKCS1v15_lib_ok:
  "VerifyRSAPKCS1v15 lib_ok pk_ok \<lparr>PublicKeyRSA.key = Some 7\<rparr> 5 [1, 2] [1] False =
     ([RSA_size (Some 7), EVP_RSA_verify (Some 10) [1, 2] 2 [0, 0, 0, 1] 4 (Some 7)], Return None)"
  by (simp add: VerifyRSAPKCS1v15_def lib_ok_def pk_ok_def zero_padded_def copy_def Let_def
      base_def replicate_4 replicate_3)

text \<open>
  Claim C4, as stated: every operation passes message and signature bytes to the library
  unmodified. It fails for \<^verbatim>\<open>VerifyRSAPKCS1v15\<close> on a signature shorter than the key: with
  a key of four bytes the signature \<open>[1]\<close> reaches the library as \<open>[0, 0, 0, 1]\<close>.
\<close>
theorem passed_unmodified_counterexample:
  "passed_sigs (fst (VerifyRSAPKCS1v15 lib_ok pk_ok \<lparr>PublicKeyRSA.key = Some 7\<rparr> 5 [1, 2] [1]
      False)) = [([0, 0, 0, 1], 4)] \<and> ([0, 0, 0, 1], 4) \<noteq> ([1 :: byte], 1 :: C_uint)"
  by (simp add: VerifyRSAPKCS1v15_lib_ok passed_sigs_simps passed_sig_def)

lemma zero_padded_eq:
  "zero_padded n sg = (if length sg < n then replicate (n - length sg) 0 @ sg else sg)"
  by (simp add: zero_padded_def copy_def Let_def)

lemma lib_ok_encrypt: "fst (snd (encrypt lib_ok c out l m n)) = 1"
  by (simp add: encrypt_def lib_ok_def)

lemma pk_ok_strict: "\<not> strictFIPS pk_ok"
  by (simp add: pk_ok_def)

lemma setupRSA_lib_ok:
  "snd (setupRSA lib_ok pk_ok (Some 7) GO_RSA_PKCS1_PADDING None [] 0 0 (encryptInit lib_ok)) =
     Return (Some 2, Some 3, None)"
  by (simp add: setupRSA_eq_body setupRSA_body_def Let_def lib_ok_def encryptInit_def
      GO_RSA_PKCS1_PADDING_def GO_RSA_PKCS1_OAEP_PADDING_def GO_RSA_PKCS1_PSS_PADDING_def)

text \<open>
  Claim C4, amended. Every sign, verify, encrypt and decrypt operation passes the
  message bytes to the library unmodified, with their length converted to a C unsigned
  int (the length modulo \<open>2 ^ 32\<close>), in every call that takes a message. For the six
  encryption and decryption operations these calls are those of \<open>crypt_msgs\<close>: none
  when the setup fails, otherwise the call that asks for the length of the output and,
  unless it returns 0, the call that fills it. Each of the four signing and verification
  operations makes exactly one such call when the hash is supported (for the PKCS1v15
  pair, unless the message is pre-hashed in strict FIPS mode), and none otherwise.
  \<^verbatim>\<open>VerifyRSAPSS\<close> passes the signature unmodified; \<^verbatim>\<open>VerifyRSAPKCS1v15\<close> passes the
  signature unmodified when it is at least as long as the key, and otherwise passes it
  with zero bytes in front, up to the size of the key, and the size of the key as its
  length. No other operation passes a signature.
\<close>
theorem passed_unmodified:
  "passed_msgs (fst (DecryptRSAOAEP lib pk h priv ciphertext label)) =
     crypt_msgs (setupRSA lib pk (PrivateKeyRSA.key priv) GO_RSA_PKCS1_OAEP_PADDING h label 0 0
       (decryptInit lib)) (decrypt lib) ciphertext \<and>
   passed_msgs (fst (EncryptRSAOAEP lib pk h pub msg label)) =
     crypt_msgs (setupRSA lib pk (PublicKeyRSA.key pub) GO_RSA_PKCS1_OAEP_PADDING h label 0 0
       (encryptInit lib)) (encrypt lib) msg \<and>
   passed_msgs (fst (DecryptRSAPKCS1 lib pk priv ciphertext)) =
     crypt_msgs (setupRSA lib pk (PrivateKeyRSA.key priv) GO_RSA_PKCS1_PADDING None [] 0 0
       (decryptInit lib)) (decrypt lib) ciphertext \<and>
   passed_msgs (fst (EncryptRSAPKCS1 lib pk pub msg)) =
     crypt_msgs (setupRSA lib pk (PublicKeyRSA.key pub) GO_RSA_PKCS1_PADDING None [] 0 0
       (encryptInit lib)) (encrypt lib) msg \<and>
   passed_msgs (fst (DecryptRSANoPadding lib pk priv ciphertext)) =
     crypt_msgs (setupRSA lib pk (PrivateKeyRSA.key priv) GO_RSA_NO_PADDING None [] 0 0
       (decryptInit lib)) (decrypt lib) ciphertext \<and>
   passed_msgs (fst (EncryptRSANoPadding lib pk pub msg)) =
     crypt_msgs (setupRSA lib pk (PublicKeyRSA.key pub) GO_RSA_NO_PADDING None [] 0 0
       (encryptInit lib)) (encrypt lib) msg \<and>
   passed_sigs (fst (DecryptRSAOAEP lib pk h priv ciphertext label)) = [] \<and>
   passed_sigs (fst (EncryptRSAOAEP lib pk h pub msg label)) = [] \<and>
   passed_sigs (fst (DecryptRSAPKCS1 lib pk priv ciphertext)) = [] \<and>
   passed_sigs (fst (EncryptRSAPKCS1 lib pk pub msg)) = [] \<and>
   passed_sigs (fst (DecryptRSANoPadding lib pk priv ciphertext)) = [] \<and>
   passed_sigs (fst (EncryptRSANoPadding lib pk pub msg)) = [] \<and>
   passed_msgs (fst (SignRSAPSS lib pk priv ch hashed saltLen)) =
     (if cryptoHashToMD pk ch = None then [] else [(hashed, of_nat (length hashed))]) \<and>
   passed_sigs (fst (SignRSAPSS lib pk priv ch hashed saltLen)) = [] \<and>
   passed_msgs (fst (VerifyRSAPSS lib pk pub ch hashed sig saltLen)) =
     (if cryptoHashToMD pk ch = None then [] else [(hashed, of_nat (length hashed))]) \<and>
   passed_sigs (fst (VerifyRSAPSS lib pk pub ch hashed sig saltLen)) =
     (if cryptoHashToMD pk ch = None then [] else [(sig, of_nat (length sig))]) \<and>
   passed_msgs (fst (SignRSAPKCS1v15 lib pk priv ch msg msgIsHashed)) =
     (if cryptoHashToMD pk ch = None \<or> msgIsHashed \<and> strictFIPS pk then []
      else [(msg, of_nat (length msg))]) \<and>
   passed_sigs (fst (SignRSAPKCS1v15 lib pk priv ch msg msgIsHashed)) = [] \<and>
   passed_msgs (fst (VerifyRSAPKCS1v15 lib pk pub ch msg sig msgIsHashed)) =
     (if cryptoHashToMD pk ch = None \<or> msgIsHashed \<and> strictFIPS pk then []
      else [(msg, of_nat (length msg))]) \<and>
   passed_sigs (fst (VerifyRSAPKCS1v15 lib pk pub ch msg sig msgIsHashed)) =
     (if cryptoHashToMD pk ch = None \<or> msgIsHashed \<and> strictFIPS pk then []
      else if length sig < C_RSA_size lib (PublicKeyRSA.key pub)
      then [(replicate (C_RSA_size lib (PublicKeyRSA.key pub) - length sig) 0 @ sig,
             of_nat (C_RSA_size lib (PublicKeyRSA.key pub)))]
      else [(sig, of_nat (length sig))])"
proof -
  have dec: "decryptInit lib = decryptInit lib \<and> decrypt lib = decrypt lib \<or>
             decryptInit lib = encryptInit lib \<and> decrypt lib = encrypt lib"
    by simp
  have enc: "encryptInit lib = decryptInit lib \<and> encrypt lib = decrypt lib \<or>
             encryptInit lib = encryptInit lib \<and> encrypt lib = encrypt lib"
    by simp
  note d = cryptRSA_exact [OF dec]
  note e = cryptRSA_exact [OF enc]
  have 1: "passed_msgs (fst (SignRSAPSS lib pk priv ch hashed saltLen)) =
     (if cryptoHashToMD pk ch = None then [] else [(hashed, of_nat (length hashed))]) \<and>
    passed_sigs (fst (SignRSAPSS lib pk priv ch hashed saltLen)) = []"
    by (auto simp add: SignRSAPSS_def Let_def base_def passed_msgs_simps passed_msg_def
        passed_sigs_simps passed_sig_def split: prod.splits)
  have 2: "passed_msgs (fst (VerifyRSAPSS lib pk pub ch hashed sig saltLen)) =
     (if cryptoHashToMD pk ch = None then [] else [(hashed, of_nat (length hashed))]) \<and>
   passed_sigs (fst (VerifyRSAPSS lib pk pub ch hashed sig saltLen)) =
     (if cryptoHashToMD pk ch = None then [] else [(sig, of_nat (length sig))])"
    by (auto simp add: VerifyRSAPSS_def Let_def base_def passed_msgs_simps passed_msg_def
        passed_sigs_simps passed_sig_def split: prod.splits)
  have 3: "passed_msgs (fst (SignRSAPKCS1v15 lib pk priv ch msg msgIsHashed)) =
     (if cryptoHashToMD pk ch = None \<or> msgIsHashed \<and> strictFIPS pk then []
      else [(msg, of_nat (length msg))]) \<and>
   passed_sigs (fst (SignRSAPKCS1v15 lib pk priv ch msg msgIsHashed)) = []"
    by (auto simp add: SignRSAPKCS1v15_def PanicIfStrictFIPS_def Let_def base_def
        passed_msgs_simps passed_msg_def passed_sigs_simps passed_sig_def split: prod.splits)
  have 4: "passed_msgs (fst (VerifyRSAPKCS1v15 lib pk pub ch msg sig msgIsHashed)) =
     (if cryptoHashToMD pk ch = None \<or> msgIsHashed \<and> strictFIPS pk then []
      else [(msg, of_nat (length msg))]) \<and>
   passed_sigs (fst (VerifyRSAPKCS1v15 lib pk pub ch msg sig msgIsHashed)) =
     (if cryptoHashToMD pk ch = None \<or> msgIsHashed \<and> strictFIPS pk then []
      else if length sig < C_RSA_size lib (PublicKeyRSA.key pub)
      then [(replicate (C_RSA_size lib (PublicKeyRSA.key pub) - length sig) 0 @ sig,
             of_nat (C_RSA_size lib (PublicKeyRSA.key pub)))]
      else [(sig, of_nat (length sig))])"
    by (auto simp add: VerifyRSAPKCS1v15_def PanicIfStrictFIPS_def Let_def base_def
        zero_padded_eq passed_msgs_simps passed_msg_def passed_sigs_simps passed_sig_def
        split: prod.splits)
  from 1 2 3 4 show ?thesis
    unfolding DecryptRSAOAEP_def EncryptRSAOAEP_def DecryptRSAPKCS1_def EncryptRSAPKCS1_def
      DecryptRSANoPadding_def EncryptRSANoPadding_def
    by (simp add: d e)
qed

theorem passed_unmodified_witness:
  "passed_msgs (fst (EncryptRSAPKCS1 lib_ok pk_ok \<lparr>PublicKeyRSA.key = Some 7\<rparr> [1, 2])) =
     [([1, 2], 2), ([1, 2], 2)] \<and>
   passed_msgs (fst (SignRSAPKCS1v15 lib_ok pk_ok \<lparr>PrivateKeyRSA.key = Some 7\<rparr> 5 [1, 2]
     True)) = [([1, 2], 2)] \<and>
   passed_sigs (fst (VerifyRSAPSS lib_ok pk_ok \<lparr>PublicKeyRSA.key = Some 7\<rparr> 5 [1, 2] [3, 4]
     0)) = [([3, 4], 2)] \<and>
   passed_sigs (fst (VerifyRSAPKCS1v15 lib_ok pk_ok \<lparr>PublicKeyRSA.key = Some 7\<rparr> 5 [1, 2]
     [1] False)) = [([0, 0, 0, 1], 4)]"
proof -
  note a = passed_unmodified [where lib = lib_ok and pk = pk_ok and h = "Some 7"
      and priv = "\<lparr>PrivateKeyRSA.key = Some 7\<rparr>" and ciphertext = "[1, 2]" and label = "[3]"
      and pub = "\<lparr>PublicKeyRSA.key = Some 7\<rparr>" and msg = "[1, 2]" and ch = 5
      and hashed = "[1, 2]" and saltLen = 0 and sig = "[3, 4]" and msgIsHashed = True]
  note b = passed_unmodified [where lib = lib_ok and pk = pk_ok and h = "Some 7"
      and priv = "\<lparr>PrivateKeyRSA.key = Some 7\<rparr>" and ciphertext = "[1, 2]" and label = "[3]"
      and pub = "\<lparr>PublicKeyRSA.key = Some 7\<rparr>" and msg = "[1, 2]" and ch = 5
      and hashed = "[1, 2]" and saltLen = 0 and sig = "[1]" and msgIsHashed = False]
  from a have 1: "passed_msgs (fst (EncryptRSAPKCS1 lib_ok pk_ok \<lparr>PublicKeyRSA.key = Some 7\<rparr>
      [1, 2])) = [([1, 2], 2), ([1, 2], 2)]"
    by (simp add: crypt_msgs_def setupRSA_lib_ok lib_ok_encrypt)
  from a have 2: "passed_msgs (fst (SignRSAPKCS1v15 lib_ok pk_ok \<lparr>PrivateKeyRSA.key = Some 7\<rparr>
      5 [1, 2] True)) = [([1, 2], 2)]"
    by (simp add: pk_ok_sel pk_ok_strict)
  from a have 3: "passed_sigs (fst (VerifyRSAPSS lib_ok pk_ok \<lparr>PublicKeyRSA.key = Some 7\<rparr> 5
      [1, 2] [3, 4] 0)) = [([3, 4], 2)]"
    by (simp add: pk_ok_sel)
  from b have 4: "passed_sigs (fst (VerifyRSAPKCS1v15 lib_ok pk_ok \<lparr>PublicKeyRSA.key = Some 7\<rparr>
      5 [1, 2] [1] False)) = [([0, 0, 0, 1], 4)]"
    by (simp add: pk_ok_sel lib_ok_sel replicate_3)
  from 1 2 3 4 show ?thesis
    by blast
qed

subsection \<open>The salt length of PSS\<close>

lemma pss_salt_lengths_simps:
  "pss_salt_lengths [] = []"
  "pss_salt_lengths (e # b) = (case pss_salt e of None \<Rightarrow> pss_salt_lengths b | Some p \<Rightarrow> p # pss_salt_lengths b)"
  by (simp_all add: pss_salt_lengths_def List.map_filter_def split: option.splits)

lemma C_int_of_small:
  "- (2 ^ 31) \<le> sint (s :: go_int) \<Longrightarrow> sint s < 2 ^ 31 \<Longrightarrow> sint (scast s :: C_int) = sint s"
  by (simp add: signed_scast_eq signed_take_bit_int_eq_self)

lemma SignRSAPSS_lib_ok:
  "SignRSAPSS lib_ok pk_ok \<lparr>PrivateKeyRSA.key = Some 7\<rparr> 5 [1, 2] 32 =
     ([RSA_size (Some 7), RSA_sign_pss_mgf1 (Some 7) 4 [1, 2] 2 (Some 10) None 32],
      Return (Some [5, 5, 5, 5], None))"
  by (simp add: SignRSAPSS_def lib_ok_def pk_ok_def Let_def base_def written_def replicate_4)

text \<open>
  Claim C8, as stated: a salt length other than 0 is passed to the library unchanged. It
  fails where the conversion to a C int changes the value: the salt length \<open>2 ^ 32\<close> is
  not 0, and reaches the signing routine as 0.
\<close>
theorem pss_salt_length_counterexample:
  "map sint (pss_salt_lengths (fst (SignRSAPSS lib_ok pk_ok \<lparr>PrivateKeyRSA.key = Some 7\<rparr> 5 [1, 2]
      4294967296))) = [0] \<and> sint (4294967296 :: go_int) = 4294967296"
  by (simp add: SignRSAPSS_def lib_ok_def pk_ok_def pss_salt_lengths_simps pss_salt_def)

text \<open>
  Claim C8, amended. A salt length of 0 from the caller is never passed to the library:
  \<^verbatim>\<open>SignRSAPSS\<close> calls the PSS signing routine (once, when the hash is supported, and
  not at all otherwise) with salt length -1 for a salt length of 0, and \<^verbatim>\<open>VerifyRSAPSS\<close>
  calls the PSS verification routine with -2 for 0. Any other salt length is passed
  converted to a C int, which leaves it unchanged when it lies between \<open>- 2 ^ 31\<close> and
  \<open>2 ^ 31 - 1\<close>.
\<close>
theorem pss_salt_length:
  "pss_salt_lengths (fst (SignRSAPSS lib pk priv h hashed saltLen)) =
     (if cryptoHashToMD pk h = None then []
      else [if saltLen = 0 then - 1 else scast saltLen]) \<and>
   pss_salt_lengths (fst (VerifyRSAPSS lib pk pub h hashed sig saltLen)) =
     (if cryptoHashToMD pk h = None then []
      else [if saltLen = 0 then - 2 else scast saltLen]) \<and>
   (saltLen \<noteq> 0 \<and> - (2 ^ 31) \<le> sint saltLen \<and> sint saltLen < 2 ^ 31 \<longrightarrow>
      sint (scast saltLen :: C_int) = sint saltLen)"
  by (auto simp add: SignRSAPSS_def VerifyRSAPSS_def Let_def pss_salt_lengths_simps pss_salt_def
      C_int_of_small split: prod.splits)

theorem pss_salt_length_witness:
  "pss_salt_lengths (fst (SignRSAPSS lib_ok pk_ok \<lparr>PrivateKeyRSA.key = Some 7\<rparr> 5 [1, 2] 32)) =
     [32] \<and>
   pss_salt_lengths (fst (VerifyRSAPSS lib_ok pk_ok \<lparr>PublicKeyRSA.key = Some 7\<rparr> 5 [1, 2] [3]
     0)) = [- 2] \<and>
   (32 :: go_int) \<noteq> 0 \<and> - (2 ^ 31) \<le> sint (32 :: go_int) \<and> sint (32 :: go_int) < 2 ^ 31 \<and>
   sint (scast (32 :: go_int) :: C_int) = sint (32 :: go_int)"
  using pss_salt_length [of lib_ok pk_ok "\<lparr>PrivateKeyRSA.key = Some 7\<rparr>" 5 "[1, 2]" 32
      "\<lparr>PublicKeyRSA.key = Some 7\<rparr>" "[3]"]
    pss_salt_length [of lib_ok pk_ok "\<lparr>PrivateKeyRSA.key = Some 7\<rparr>" 5 "[1, 2]" 0
      "\<lparr>PublicKeyRSA.key = Some 7\<rparr>" "[3]"]
  by (simp add: pk_ok_sel)

subsection \<open>Short signatures\<close>

lemma VerifyRSAPKCS1v15_lib_ok_hashed:
  "VerifyRSAPKCS1v15 lib_ok pk_ok \<lparr>PublicKeyRSA.key = Some 7\<rparr> 5 [1, 2] [1, 2, 3, 4, 5] True =
     ([RSA_size (Some 7), EVP_MD_type (Some 10),
       RSA_verify 672 [1, 2] 2 [1, 2, 3, 4, 5] 5 (Some 7)], Return None)"
  by (simp add: VerifyRSAPKCS1v15_def PanicIfStrictFIPS_def lib_ok_def pk_ok_def
      zero_padded_def Let_def base_def)

text \<open>
  Claim C9. For a signature shorter than the key, \<^verbatim>\<open>VerifyRSAPKCS1v15\<close> makes the same
  calls and returns the same result as for the signature with zero bytes in front, up to
  the size of the key. For a signature at least as long as the key and a supported hash
  (unless the message is pre-hashed in strict FIPS mode) the operation makes exactly one
  verification call, and that call carries the signature as it is, with its length as a
  C unsigned int; otherwise it makes no verification call.
\<close>
theorem VerifyRSAPKCS1v15_short_signature:
  "(length sig < C_RSA_size lib (PublicKeyRSA.key pub) \<longrightarrow>
      VerifyRSAPKCS1v15 lib pk pub h msg sig b =
      VerifyRSAPKCS1v15 lib pk pub h msg
        (replicate (C_RSA_size lib (PublicKeyRSA.key pub) - length sig) 0 @ sig) b) \<and>
   (C_RSA_size lib (PublicKeyRSA.key pub) \<le> length sig \<longrightarrow>
      passed_sigs (fst (VerifyRSAPKCS1v15 lib pk pub h msg sig b)) =
        (if cryptoHashToMD pk h = None \<or> b \<and> strictFIPS pk then []
         else [(sig, of_nat (length sig))]))"
proof -
  let ?n = "C_RSA_size lib (PublicKeyRSA.key pub)"
  have "zero_padded ?n (replicate (?n - length sig) 0 @ sig) = zero_padded ?n sig"
    if "length sig < ?n"
    using that by (simp add: zero_padded_eq)
  then have short: "length sig < ?n \<longrightarrow>
      VerifyRSAPKCS1v15 lib pk pub h msg sig b =
      VerifyRSAPKCS1v15 lib pk pub h msg (replicate (?n - length sig) 0 @ sig) b"
    by (simp add: VerifyRSAPKCS1v15_def)
  have long: "?n \<le> length sig \<longrightarrow>
      passed_sigs (fst (VerifyRSAPKCS1v15 lib pk pub h msg sig b)) =
        (if cryptoHashToMD pk h = None \<or> b \<and> strictFIPS pk then []
         else [(sig, of_nat (length sig))])"
    by (auto simp add: VerifyRSAPKCS1v15_def PanicIfStrictFIPS_def Let_def zero_padded_eq
        base_def passed_sigs_simps passed_sig_def)
  from short long show ?thesis by blast
qed

theorem VerifyRSAPKCS1v15_short_signature_witness:
  "length [1 :: byte] < C_RSA_size lib_ok (PublicKeyRSA.key \<lparr>PublicKeyRSA.key = Some 7\<rparr>) \<and>
   VerifyRSAPKCS1v15 lib_ok pk_ok \<lparr>PublicKeyRSA.key = Some 7\<rparr> 5 [1, 2] [1] False =
     VerifyRSAPKCS1v15 lib_ok pk_ok \<lparr>PublicKeyRSA.key = Some 7\<rparr> 5 [1, 2] [0, 0, 0, 1] False \<and>
   VerifyRSAPKCS1v15 lib_ok pk_ok \<lparr>PublicKeyRSA.key = Some 7\<rparr> 5 [1, 2] [1] False =
     ([RSA_size (Some 7), EVP_RSA_verify (Some 10) [1, 2] 2 [0, 0, 0, 1] 4 (Some 7)],
      Return None) \<and>
   C_RSA_size lib_ok (PublicKeyRSA.key \<lparr>PublicKeyRSA.key = Some 7\<rparr>)
     \<le> length [1, 2, 3, 4, 5 :: byte] \<and>
   passed_sigs (fst (VerifyRSAPKCS1v15 lib_ok pk_ok \<lparr>PublicKeyRSA.key = Some 7\<rparr> 5 [1, 2]
     [1, 2, 3, 4, 5] True)) = [([1, 2, 3, 4, 5], 5)] \<and>
   VerifyRSAPKCS1v15 lib_ok pk_ok \<lparr>PublicKeyRSA.key = Some 7\<rparr> 5 [1, 2] [1, 2, 3, 4, 5] True =
     ([RSA_size (Some 7), EVP_MD_type (Some 10),
       RSA_verify 672 [1, 2] 2 [1, 2, 3, 4, 5] 5 (Some 7)], Return None)"
proof -
  note a = VerifyRSAPKCS1v15_short_signature [of "[1]" lib_ok "\<lparr>PublicKeyRSA.key = Some 7\<rparr>"
      pk_ok 5 "[1, 2]" False]
  note b = VerifyRSAPKCS1v15_short_signature [of "[1, 2, 3, 4, 5]" lib_ok
      "\<lparr>PublicKeyRSA.key = Some 7\<rparr>" pk_ok 5 "[1, 2]" True]
  have 0: "length [1 :: byte] < C_RSA_size lib_ok (PublicKeyRSA.key \<lparr>PublicKeyRSA.key = Some 7\<rparr>)"
    "C_RSA_size lib_ok (PublicKeyRSA.key \<lparr>PublicKeyRSA.key = Some 7\<rparr>)
       \<le> length [1, 2, 3, 4, 5 :: byte]"
    by (simp_all add: lib_ok_sel)
  from a have 1: "VerifyRSAPKCS1v15 lib_ok pk_ok \<lparr>PublicKeyRSA.key = Some 7\<rparr> 5 [1, 2] [1] False =
     VerifyRSAPKCS1v15 lib_ok pk_ok \<lparr>PublicKeyRSA.key = Some 7\<rparr> 5 [1, 2] [0, 0, 0, 1] False"
    by (simp add: lib_ok_sel replicate_3)
  from b have 2: "passed_sigs (fst (VerifyRSAPKCS1v15 lib_ok pk_ok \<lparr>PublicKeyRSA.key = Some 7\<rparr>
      5 [1, 2] [1, 2, 3, 4, 5] True)) = [([1, 2, 3, 4, 5], 5)]"
    by (simp add: lib_ok_sel pk_ok_sel pk_ok_strict)
  from 0 1 2 VerifyRSAPKCS1v15_lib_ok VerifyRSAPKCS1v15_lib_ok_hashed show ?thesis
    by blast
qed

subsection \<open>Key generation\<close>







section \<open>Properties of the test of the vectors\<close>

subsection \<open>One line\<close>

lemma line_step:
  "TestVectors_line env st (body @ [CHR 0x0D, CHR 0x0A]) =
     (if body = [] \<or> hd body = CHR ''#'' then Proceed (st\<lparr>tv_lineNo := tv_lineNo st + 1\<rparr>)
      else if hd body = CHR ''[''
      then TestVectors_header env (st\<lparr>tv_lineNo := tv_lineNo st + 1\<rparr>) body
      else (case tv_h st of
              None \<Rightarrow> Proceed (st\<lparr>tv_lineNo := tv_lineNo st + 1\<rparr>)
            | Some h \<Rightarrow>
                if Curve (tv_pub st) = None then Proceed (st\<lparr>tv_lineNo := tv_lineNo st + 1\<rparr>)
                else TestVectors_variable env (st\<lparr>tv_lineNo := tv_lineNo st + 1\<rparr>) h body))"
  by (auto simp add: TestVectors_line_def Let_def suffix_def hd_conv_nth split: option.splits)

lemma field_line_step:
  "TestVectors_line env st (field_line name content) =
     (if hd (name @ content) = CHR ''#'' \<or> name @ content = []
      then Proceed (st\<lparr>tv_lineNo := tv_lineNo st + 1\<rparr>)
      else if hd (name @ content) = CHR ''[''
      then TestVectors_header env (st\<lparr>tv_lineNo := tv_lineNo st + 1\<rparr>) (name @ content)
      else (case tv_h st of
              None \<Rightarrow> Proceed (st\<lparr>tv_lineNo := tv_lineNo st + 1\<rparr>)
            | Some h \<Rightarrow>
                if Curve (tv_pub st) = None then Proceed (st\<lparr>tv_lineNo := tv_lineNo st + 1\<rparr>)
                else TestVectors_variable env (st\<lparr>tv_lineNo := tv_lineNo st + 1\<rparr>) h
                       (name @ content)))"
proof -
  have "field_line name content = (name @ content) @ [CHR 0x0D, CHR 0x0A]"
    by (simp add: field_line_def)
  then show ?thesis
    by (simp only: line_step) auto
qed

lemma SplitN2_comma:
  "CHR '','' \<notin> set cn \<Longrightarrow> SplitN2 (cn @ '','' @ hn) = [cn, hn]"
  by (induction cn) (auto simp add: SplitN2_def)

lemma header_inner:
  "take (length (CHR ''['' # inner @ '']'') - 2) (drop 1 (CHR ''['' # inner @ '']'')) = inner"
  by simp

lemma header_step:
  assumes "CHR '','' \<notin> set cn"
  shows "TestVectors_line env st (section_header cn hn) =
     (if cn = ''P-224'' \<and> boring_Enabled env then Proceed (st\<lparr>tv_lineNo := tv_lineNo st + 1\<rparr>)
      else Proceed (st\<lparr>tv_lineNo := tv_lineNo st + 1,
             tv_pub := (tv_pub st)\<lparr>Curve := curve_of cn\<rparr>,
             tv_h := hash_of hn,
             tv_ch := (case hash_of hn of None \<Rightarrow> tv_ch st | Some f \<Rightarrow> crypto_of f)\<rparr>))"
proof -
  have inner: "take (length (''['' @ cn @ '','' @ hn @ '']'') - 2)
      (drop 1 (''['' @ cn @ '','' @ hn @ '']'')) = cn @ '','' @ hn"
    using header_inner [of "cn @ '','' @ hn"] by simp
  have long: "\<not> length (''['' @ cn @ '','' @ hn @ '']'') < 2"
    by simp
  show ?thesis
    unfolding section_header_def field_line_step TestVectors_header_def Let_def inner
      SplitN2_comma [OF assms]
    using long by (simp add: curve_of_def hash_of_def crypto_of_def)
qed

lemma curve_of_name: "curve_of (curve_name c) = Some c"
  by (cases c) (simp_all add: curve_of_def curve_name_def)

lemma hash_of_name: "hash_of (hash_name f) = Some f"
  by (cases f) (simp_all add: hash_of_def hash_name_def)

lemma curve_name_comma: "CHR '','' \<notin> set (curve_name c)"
  by (cases c) (simp_all add: curve_name_def)

lemma curve_name_P224: "curve_name c = ''P-224'' \<longleftrightarrow> c = P224"
  by (cases c) (simp_all add: curve_name_def)

lemma header_supported:
  assumes "\<not> (c = P224 \<and> boring_Enabled env)"
  shows "TestVectors_line env st (section_header (curve_name c) (hash_name f)) =
     Proceed (st\<lparr>tv_lineNo := tv_lineNo st + 1,
             tv_pub := (tv_pub st)\<lparr>Curve := Some c\<rparr>,
             tv_h := Some f, tv_ch := crypto_of f\<rparr>)"
  using assms
  by (auto simp add: header_step [OF curve_name_comma] curve_of_name hash_of_name curve_name_P224)

lemma section_header_length: "section_header cn hn \<noteq> []"
  by (simp add: section_header_def field_line_def)

lemma field_line_length: "field_line name content \<noteq> []"
  by (simp add: field_line_def)

subsection \<open>The lines of a section\<close>

lemma line_keeps_section:
  assumes "l \<noteq> []" "hd l \<noteq> CHR ''[''" "TestVectors_line env st l = Proceed st'"
  shows "tv_h st' = tv_h st \<and> Curve (tv_pub st') = Curve (tv_pub st) \<and> tv_ch st' = tv_ch st"
proof -
  have "take (length l - 2) l \<noteq> [] \<Longrightarrow> take (length l - 2) l ! 0 = hd l"
    using assms(1) by (cases l) (auto simp add: take_Cons')
  then show ?thesis
    using assms(2,3)
    by (auto simp add: TestVectors_line_def TestVectors_variable_def TestVectors_result_def
        fromHex_def Let_def split: if_splits option.splits sum.splits)
qed

lemma loop_keeps_section:
  assumes "\<forall>l\<in>set body. l \<noteq> [] \<and> hd l \<noteq> CHR ''[''"
    and "TestVectors_loop env st body True = Proceed st'"
  shows "tv_h st' = tv_h st \<and> Curve (tv_pub st') = Curve (tv_pub st) \<and> tv_ch st' = tv_ch st"
  using assms
proof (induction body arbitrary: st)
  case Nil
  then show ?case by simp
next
  case (Cons l body)
  from Cons.prems obtain st1 where
    a: "TestVectors_line env st l = Proceed st1" and
    b: "TestVectors_loop env st1 body True = Proceed st'"
    by (auto split: progress.splits)
  from Cons.prems(1) a have "tv_h st1 = tv_h st \<and> Curve (tv_pub st1) = Curve (tv_pub st) \<and>
      tv_ch st1 = tv_ch st"
    using line_keeps_section [of l env st st1] by simp
  moreover from Cons.IH [OF _ b] Cons.prems(1)
  have "tv_h st' = tv_h st1 \<and> Curve (tv_pub st') = Curve (tv_pub st1) \<and> tv_ch st' = tv_ch st1"
    by simp
  ultimately show ?case by simp
qed

lemma section_reached:
  assumes "\<not> (c = P224 \<and> boring_Enabled env)"
    and "\<forall>l\<in>set body. l \<noteq> [] \<and> hd l \<noteq> CHR ''[''"
    and "TestVectors_loop env st (section_header (curve_name c) (hash_name f) # body) True =
      Proceed st2"
  shows "tv_h st2 = Some f \<and> Curve (tv_pub st2) = Some c \<and> tv_ch st2 = crypto_of f"
  using loop_keeps_section [OF assms(2), of env _ st2] assms(3)
  by (simp add: header_supported [OF assms(1)] section_header_length)

lemma msg_line:
  assumes "tv_h st = Some f" "Curve (tv_pub st) = Some c" "hex_DecodeString env m = Inr msg"
  shows "TestVectors_line env st (field_line ''Msg = '' m) =
     Proceed (st\<lparr>tv_lineNo := tv_lineNo st + 1, tv_msg := msg\<rparr>)"
  using assms by (simp add: field_line_step TestVectors_variable_def)

lemma qx_line:
  assumes "tv_h st = Some f" "Curve (tv_pub st) = Some c" "big_SetString16 env t = Some v"
  shows "TestVectors_line env st (field_line ''Qx = '' t) =
     Proceed (st\<lparr>tv_lineNo := tv_lineNo st + 1, tv_pub := (tv_pub st)\<lparr>X := Some v\<rparr>\<rparr>)"
  using assms by (simp add: field_line_step TestVectors_variable_def fromHex_def)

lemma qy_line:
  assumes "tv_h st = Some f" "Curve (tv_pub st) = Some c" "big_SetString16 env t = Some v"
  shows "TestVectors_line env st (field_line ''Qy = '' t) =
     Proceed (st\<lparr>tv_lineNo := tv_lineNo st + 1, tv_pub := (tv_pub st)\<lparr>Y := Some v\<rparr>\<rparr>)"
  using assms by (simp add: field_line_step TestVectors_variable_def fromHex_def)

lemma r_line:
  assumes "tv_h st = Some f" "Curve (tv_pub st) = Some c" "big_SetString16 env t = Some v"
  shows "TestVectors_line env st (field_line ''R = '' t) =
     Proceed (st\<lparr>tv_lineNo := tv_lineNo st + 1, tv_r := Some v\<rparr>)"
  using assms by (simp add: field_line_step TestVectors_variable_def fromHex_def)

lemma s_line:
  assumes "tv_h st = Some f" "Curve (tv_pub st) = Some c" "big_SetString16 env t = Some v"
  shows "TestVectors_line env st (field_line ''S = '' t) =
     Proceed (st\<lparr>tv_lineNo := tv_lineNo st + 1, tv_s := Some v\<rparr>)"
  using assms by (simp add: field_line_step TestVectors_variable_def fromHex_def)

lemma result_line:
  assumes "tv_h st = Some f" "Curve (tv_pub st) = Some c"
  shows "TestVectors_line env st (field_line ''Result = '' (x # rest)) =
     (if (if boring_Enabled env
          then HashVerify env (tv_pub st) (tv_msg st) (tv_r st) (tv_s st) (tv_ch st)
          else Verify env (tv_pub st) (hash_Sum env f (tv_msg st)) (tv_r st) (tv_s st))
         = (x = CHR ''P'')
      then Proceed (st\<lparr>tv_lineNo := tv_lineNo st + 1\<rparr>)
      else Fatalf (''incorrect result on line '' @ Itoa (tv_lineNo st + 1)))"
  using assms by (simp add: field_line_step TestVectors_variable_def TestVectors_result_def)

lemma public_key_of:
  "Curve p = Some c \<Longrightarrow> p\<lparr>X := Some a, Y := Some b\<rparr> = \<lparr>Curve = Some c, X = Some a, Y = Some b\<rparr>"
  by (cases p) simp

lemma record_step:
  assumes sec: "tv_h st = Some f" "Curve (tv_pub st) = Some c" "tv_ch st = crypto_of f"
    and dec: "hex_DecodeString env m = Inr msg" "big_SetString16 env qx = Some vx"
      "big_SetString16 env qy = Some vy" "big_SetString16 env r = Some vr"
      "big_SetString16 env s = Some vs"
  shows "TestVectors_loop env st (record_lines m qx qy r s (x # rest) @ others) eof =
     (if record_verdict env c f msg vx vy vr vs = (x = CHR ''P'')
      then TestVectors_loop env
             (st\<lparr>tv_lineNo := tv_lineNo st + 6, tv_msg := msg,
                tv_pub := \<lparr>Curve = Some c, X = Some vx, Y = Some vy\<rparr>,
                tv_r := Some vr, tv_s := Some vs\<rparr>) others eof
      else Fatalf (''incorrect result on line '' @ Itoa (tv_lineNo st + 6)))"
proof -
  define s1 where "s1 = st\<lparr>tv_lineNo := tv_lineNo st + 1, tv_msg := msg\<rparr>"
  define s2 where "s2 = s1\<lparr>tv_lineNo := tv_lineNo s1 + 1, tv_pub := (tv_pub s1)\<lparr>X := Some vx\<rparr>\<rparr>"
  define s3 where "s3 = s2\<lparr>tv_lineNo := tv_lineNo s2 + 1, tv_pub := (tv_pub s2)\<lparr>Y := Some vy\<rparr>\<rparr>"
  define s4 where "s4 = s3\<lparr>tv_lineNo := tv_lineNo s3 + 1, tv_r := Some vr\<rparr>"
  define s5 where "s5 = s4\<lparr>tv_lineNo := tv_lineNo s4 + 1, tv_s := Some vs\<rparr>"
  have i1: "tv_h s1 = Some f" "Curve (tv_pub s1) = Some c"
    by (simp_all add: s1_def sec)
  have i2: "tv_h s2 = Some f" "Curve (tv_pub s2) = Some c"
    by (simp_all add: s2_def i1)
  have i3: "tv_h s3 = Some f" "Curve (tv_pub s3) = Some c"
    by (simp_all add: s3_def i2)
  have i4: "tv_h s4 = Some f" "Curve (tv_pub s4) = Some c"
    by (simp_all add: s4_def i3)
  have i5: "tv_h s5 = Some f" "Curve (tv_pub s5) = Some c"
    by (simp_all add: s5_def i4)
  have l1: "TestVectors_line env st (field_line ''Msg = '' m) = Proceed s1"
    unfolding s1_def by (rule msg_line [OF sec(1) sec(2) dec(1)])
  have l2: "TestVectors_line env s1 (field_line ''Qx = '' qx) = Proceed s2"
    unfolding s2_def by (rule qx_line [OF i1 dec(2)])
  have l3: "TestVectors_line env s2 (field_line ''Qy = '' qy) = Proceed s3"
    unfolding s3_def by (rule qy_line [OF i2 dec(3)])
  have l4: "TestVectors_line env s3 (field_line ''R = '' r) = Proceed s4"
    unfolding s4_def by (rule r_line [OF i3 dec(4)])
  have l5: "TestVectors_line env s4 (field_line ''S = '' s) = Proceed s5"
    unfolding s5_def by (rule s_line [OF i4 dec(5)])
  have pk: "tv_pub s5 = \<lparr>Curve = Some c, X = Some vx, Y = Some vy\<rparr>"
    using public_key_of [OF sec(2), where a = vx and b = vy]
    by (simp add: s5_def s4_def s3_def s2_def s1_def)
  have vals: "tv_msg s5 = msg" "tv_r s5 = Some vr" "tv_s s5 = Some vs" "tv_ch s5 = crypto_of f"
    "tv_lineNo s5 + 1 = tv_lineNo st + 6"
    by (simp_all add: s5_def s4_def s3_def s2_def s1_def sec)
  have fin: "s5\<lparr>tv_lineNo := tv_lineNo s5 + 1\<rparr> =
      st\<lparr>tv_lineNo := tv_lineNo st + 6, tv_msg := msg,
         tv_pub := \<lparr>Curve = Some c, X = Some vx, Y = Some vy\<rparr>,
         tv_r := Some vr, tv_s := Some vs\<rparr>"
    using pk vals by (intro vectors.equality) (simp_all add: s5_def s4_def s3_def s2_def s1_def)
  have l6: "TestVectors_line env s5 (field_line ''Result = '' (x # rest)) =
      (if record_verdict env c f msg vx vy vr vs = (x = CHR ''P'')
       then Proceed (s5\<lparr>tv_lineNo := tv_lineNo s5 + 1\<rparr>)
       else Fatalf (''incorrect result on line '' @ Itoa (tv_lineNo st + 6)))"
    unfolding result_line [OF i5] pk vals record_verdict_def by simp
  show ?thesis
    unfolding record_lines_def fin [symmetric]
    by (simp add: field_line_length l1 l2 l3 l4 l5 l6 del: One_nat_def)
qed

lemma skipped_line:
  assumes "tv_h st = None \<or> Curve (tv_pub st) = None" "content = [] \<or> hd content \<noteq> CHR ''[''"
  shows "TestVectors_line env st (field_line [] content) =
     Proceed (st\<lparr>tv_lineNo := tv_lineNo st + 1\<rparr>)"
  using assms by (auto simp add: field_line_step split: option.splits)

lemma skipped_lines:
  assumes "tv_h st = None \<or> Curve (tv_pub st) = None"
    and "\<forall>content\<in>set contents. content = [] \<or> hd content \<noteq> CHR ''[''"
  shows "TestVectors_loop env st (map (field_line []) contents @ others) eof =
     TestVectors_loop env (st\<lparr>tv_lineNo := tv_lineNo st + int (length contents)\<rparr>) others eof"
  using assms
proof (induction contents arbitrary: st)
  case Nil
  then show ?case by simp
next
  case (Cons t contents)
  have "TestVectors_loop env st (map (field_line []) (t # contents) @ others) eof =
      TestVectors_loop env (st\<lparr>tv_lineNo := tv_lineNo st + 1\<rparr>)
        (map (field_line []) contents @ others) eof"
    using Cons.prems by (simp add: skipped_line field_line_length)
  also have "\<dots> = TestVectors_loop env
      (st\<lparr>tv_lineNo := tv_lineNo st + 1, tv_lineNo := tv_lineNo st + 1 + int (length contents)\<rparr>)
      others eof"
    using Cons.IH [of "st\<lparr>tv_lineNo := tv_lineNo st + 1\<rparr>"] Cons.prems by simp
  finally show ?case by (simp add: add.assoc)
qed

lemma section_skipped:
  assumes "curve_of cn = None \<or> hash_of hn = None"
    and "\<not> (cn = ''P-224'' \<and> boring_Enabled env)" "CHR '','' \<notin> set cn"
    and "\<forall>content\<in>set contents. content = [] \<or> hd content \<noteq> CHR ''[''"
  shows "TestVectors_loop env st (section_header cn hn # map (field_line []) contents @ others) eof =
     TestVectors_loop env
       (st\<lparr>tv_lineNo := tv_lineNo st + 1 + int (length contents),
          tv_pub := (tv_pub st)\<lparr>Curve := curve_of cn\<rparr>,
          tv_h := hash_of hn,
          tv_ch := (case hash_of hn of None \<Rightarrow> tv_ch st | Some f \<Rightarrow> crypto_of f)\<rparr>) others eof"
proof -
  define s1 where "s1 = st\<lparr>tv_lineNo := tv_lineNo st + 1,
             tv_pub := (tv_pub st)\<lparr>Curve := curve_of cn\<rparr>,
             tv_h := hash_of hn,
             tv_ch := (case hash_of hn of None \<Rightarrow> tv_ch st | Some f \<Rightarrow> crypto_of f)\<rparr>"
  have h: "TestVectors_line env st (section_header cn hn) = Proceed s1"
    unfolding s1_def using assms(2) by (auto simp add: header_step [OF assms(3)])
  have inv: "tv_h s1 = None \<or> Curve (tv_pub s1) = None"
    using assms(1) by (auto simp add: s1_def)
  have fin: "s1\<lparr>tv_lineNo := tv_lineNo s1 + int (length contents)\<rparr> =
      st\<lparr>tv_lineNo := tv_lineNo st + 1 + int (length contents),
          tv_pub := (tv_pub st)\<lparr>Curve := curve_of cn\<rparr>,
          tv_h := hash_of hn,
          tv_ch := (case hash_of hn of None \<Rightarrow> tv_ch st | Some f \<Rightarrow> crypto_of f)\<rparr>"
    by (intro vectors.equality) (simp_all add: s1_def)
  show ?thesis
    unfolding fin [symmetric]
    by (simp add: section_header_length h skipped_lines [OF inv assms(4)])
qed

text \<open>
  With the external library enabled the header of a section for P-224 is passed over
  before the curve and the hash are assigned: the lines after it are read with the
  curve and the hash of the section before it.
\<close>
lemma p224_header_under_boring:
  "boring_Enabled env \<Longrightarrow>
   TestVectors_line env st (section_header ''P-224'' hn) =
     Proceed (st\<lparr>tv_lineNo := tv_lineNo st + 1\<rparr>)"
  by (simp add: header_step)

subsection \<open>The records of a section\<close>

lemma Itoa_9: "Itoa 9 = ''9''"
  by code_simp

lemma env_sel:
  "boring_Enabled env_plain = False" "boring_Enabled env_boring = True"
  "boring_Enabled env_reject = False"
  "hex_DecodeString env_plain t = Inr []" "big_SetString16 env_plain t = Some 0"
  "hex_DecodeString env_boring t = Inr []" "big_SetString16 env_boring t = Some 0"
  "Verify env_plain k m r s = True" "HashVerify env_boring k m r s h = False"
  "Verify env_reject k m r s = False"
  by (simp_all add: env_plain_def env_boring_def env_reject_def)

lemma vectors_section_reached:
  "TestVectors_loop env_plain vectors_init
     [section_header (curve_name P256) (hash_name SHA256), field_line [] []] True =
   Proceed vectors_section"
  "TestVectors_loop env_boring vectors_init
     [section_header (curve_name P256) (hash_name SHA256), field_line [] []] True =
   Proceed vectors_section"
  by (simp_all add: header_supported section_header_length field_line_length field_line_step
      vectors_section_def vectors_init_def crypto_of_def)

lemma vectors_section_sel:
  "tv_lineNo vectors_section + 6 = 9"
  by (simp add: vectors_section_def)

lemma unknown_names:
  "curve_of ''P-192'' = None" "hash_of ''SHA-1'' = Some SHA1" "CHR '','' \<notin> set ''P-192''"
  "crypto_of SHA1 = crypto_SHA1"
  by (simp_all add: curve_of_def hash_of_def crypto_of_def)

text \<open>
  Claim C5, as stated: for every record the test fails when the verification disagrees
  with the expectation. It does not hold for the records of a section whose header names
  a curve or a hash that the test does not know: the header leaves the curve or the hash
  nil, and the guard \<^verbatim>\<open>h == nil || pub.Curve == nil\<close> passes over every line of the
  section. With a section for P-192, a record that is expected to pass and a \<^verbatim>\<open>Verify\<close>
  that rejects everything, the test runs to its end.
\<close>
theorem section_record_checked_counterexample:
  "TestVectors env_reject False True
     (section_header ''P-192'' ''SHA-1'' #
      record_lines ''00'' ''01'' ''02'' ''03'' ''04'' ''P (0 )'') True =
     Proceed (vectors_init\<lparr>tv_lineNo := 8, tv_h := Some SHA1, tv_ch := crypto_SHA1\<rparr>) \<and>
   (\<forall>k m r s. Verify env_reject k m r s = False)"
proof -
  have l: "record_lines ''00'' ''01'' ''02'' ''03'' ''04'' ''P (0 )'' =
      map (field_line []) [''Msg = 00'', ''Qx = 01'', ''Qy = 02'', ''R = 03'', ''S = 04'',
        ''Result = P (0 )''] @ []"
    by (simp add: record_lines_def field_line_def)
  have "TestVectors_loop env_reject vectors_init
     (section_header ''P-192'' ''SHA-1'' #
      record_lines ''00'' ''01'' ''02'' ''03'' ''04'' ''P (0 )'') True =
     Proceed (vectors_init\<lparr>tv_lineNo := 8, tv_h := Some SHA1, tv_ch := crypto_SHA1\<rparr>)"
    unfolding l
    by (subst section_skipped) (simp_all add: env_sel unknown_names vectors_init_def)
  then show ?thesis
    by (simp add: TestVectors_def env_sel)
qed

text \<open>
  Claim C5, amended. Take a section opened by a header that names one of the curves
  P-224 (without the external library), P-256, P-384 and P-521 and one of the hashes
  SHA-1, SHA-224, SHA-256, SHA-384 and SHA-512, and any lines of that section the test
  has gone through. A record that follows (the lines \<^verbatim>\<open>Msg\<close>, \<^verbatim>\<open>Qx\<close>, \<^verbatim>\<open>Qy\<close>, \<^verbatim>\<open>R\<close>,
  \<^verbatim>\<open>S\<close> and \<^verbatim>\<open>Result\<close>, with values that decode) is expected to pass exactly when the
  character after \<^verbatim>\<open>Result = \<close> is \<^verbatim>\<open>P\<close>; the test fails, with "incorrect result" and
  the number of the \<^verbatim>\<open>Result\<close> line, exactly when the verification of the record for the
  curve and the hash of the section disagrees with that expectation, and otherwise goes
  on with the lines after the record. A section whose header names another curve or
  another hash is passed over: none of its lines is checked, whatever they say. Nothing
  is claimed of a section for P-224 with the external library enabled.
\<close>
theorem section_record_checked:
  "(\<not> (c = P224 \<and> boring_Enabled env) \<and>
    (\<forall>l\<in>set body. l \<noteq> [] \<and> hd l \<noteq> CHR ''['') \<and>
    TestVectors_loop env st (section_header (curve_name c) (hash_name f) # body) True =
      Proceed st2 \<and>
    hex_DecodeString env m = Inr msg \<and> big_SetString16 env qx = Some vx \<and>
    big_SetString16 env qy = Some vy \<and> big_SetString16 env r = Some vr \<and>
    big_SetString16 env s = Some vs \<longrightarrow>
    TestVectors_loop env st2 (record_lines m qx qy r s (x # rest) @ others) eof =
      (if record_verdict env c f msg vx vy vr vs = (x = CHR ''P'')
       then TestVectors_loop env
              (st2\<lparr>tv_lineNo := tv_lineNo st2 + 6, tv_msg := msg,
                 tv_pub := \<lparr>Curve = Some c, X = Some vx, Y = Some vy\<rparr>,
                 tv_r := Some vr, tv_s := Some vs\<rparr>) others eof
       else Fatalf (''incorrect result on line '' @ Itoa (tv_lineNo st2 + 6)))) \<and>
   ((curve_of cn = None \<or> hash_of hn = None) \<and> \<not> (cn = ''P-224'' \<and> boring_Enabled env) \<and>
    CHR '','' \<notin> set cn \<and> (\<forall>content\<in>set contents. content = [] \<or> hd content \<noteq> CHR ''['') \<longrightarrow>
    TestVectors_loop env st (section_header cn hn # map (field_line []) contents @ others) eof =
      TestVectors_loop env
        (st\<lparr>tv_lineNo := tv_lineNo st + 1 + int (length contents),
           tv_pub := (tv_pub st)\<lparr>Curve := curve_of cn\<rparr>,
           tv_h := hash_of hn,
           tv_ch := (case hash_of hn of None \<Rightarrow> tv_ch st | Some f \<Rightarrow> crypto_of f)\<rparr>)
        others eof)"
proof (intro conjI impI)
  assume a: "\<not> (c = P224 \<and> boring_Enabled env) \<and>
    (\<forall>l\<in>set body. l \<noteq> [] \<and> hd l \<noteq> CHR ''['') \<and>
    TestVectors_loop env st (section_header (curve_name c) (hash_name f) # body) True =
      Proceed st2 \<and>
    hex_DecodeString env m = Inr msg \<and> big_SetString16 env qx = Some vx \<and>
    big_SetString16 env qy = Some vy \<and> big_SetString16 env r = Some vr \<and>
    big_SetString16 env s = Some vs"
  then have "tv_h st2 = Some f \<and> Curve (tv_pub st2) = Some c \<and> tv_ch st2 = crypto_of f"
    using section_reached [of c env body st f st2] by blast
  with a show "TestVectors_loop env st2 (record_lines m qx qy r s (x # rest) @ others) eof =
      (if record_verdict env c f msg vx vy vr vs = (x = CHR ''P'')
       then TestVectors_loop env
              (st2\<lparr>tv_lineNo := tv_lineNo st2 + 6, tv_msg := msg,
                 tv_pub := \<lparr>Curve = Some c, X = Some vx, Y = Some vy\<rparr>,
                 tv_r := Some vr, tv_s := Some vs\<rparr>) others eof
       else Fatalf (''incorrect result on line '' @ Itoa (tv_lineNo st2 + 6)))"
    using record_step [of st2 f c env m msg qx vx qy vy r vr s vs x rest others eof] by blast
next
  assume "(curve_of cn = None \<or> hash_of hn = None) \<and> \<not> (cn = ''P-224'' \<and> boring_Enabled env) \<and>
    CHR '','' \<notin> set cn \<and> (\<forall>content\<in>set contents. content = [] \<or> hd content \<noteq> CHR ''['')"
  then show "TestVectors_loop env st (section_header cn hn # map (field_line []) contents @ others) eof =
      TestVectors_loop env
        (st\<lparr>tv_lineNo := tv_lineNo st + 1 + int (length contents),
           tv_pub := (tv_pub st)\<lparr>Curve := curve_of cn\<rparr>,
           tv_h := hash_of hn,
           tv_ch := (case hash_of hn of None \<Rightarrow> tv_ch st | Some f \<Rightarrow> crypto_of f)\<rparr>)
        others eof"
    using section_skipped [of cn hn env contents st others eof] by blast
qed

theorem section_record_checked_witness:
  "TestVectors_loop env_plain vectors_init
     [section_header (curve_name P256) (hash_name SHA256), field_line [] []] True =
     Proceed vectors_section \<and>
   TestVectors_loop env_plain vectors_section
     (record_lines ''00'' ''01'' ''02'' ''03'' ''04'' ''P (0 )'') True =
     Proceed (vectors_section\<lparr>tv_lineNo := 9, tv_msg := [],
       tv_pub := \<lparr>Curve = Some P256, X = Some 0, Y = Some 0\<rparr>,
       tv_r := Some 0, tv_s := Some 0\<rparr>) \<and>
   TestVectors_loop env_boring vectors_section
     (record_lines ''00'' ''01'' ''02'' ''03'' ''04'' ''P (0 )'') True =
     Fatalf ''incorrect result on line 9'' \<and>
   TestVectors_loop env_reject vectors_init
     (section_header ''P-192'' ''SHA-1'' #
      map (field_line []) [''Msg = 00'', ''R = 03'', ''Result = P (0 )'']) True =
     Proceed (vectors_init\<lparr>tv_lineNo := 5, tv_h := Some SHA1, tv_ch := crypto_SHA1\<rparr>)"
proof -
  note a = section_record_checked [where c = P256 and env = env_plain and f = SHA256
      and body = "[field_line [] []]" and st = vectors_init and ?st2.0 = vectors_section
      and m = "''00''" and qx = "''01''" and qy = "''02''" and r = "''03''" and s = "''04''"
      and msg = "[]" and vx = 0 and vy = 0 and vr = 0 and vs = 0
      and x = "CHR ''P''" and rest = "'' (0 )''" and others = "[]" and eof = True
      and cn = "''P-192''" and hn = "''SHA-1''"
      and contents = "[''Msg = 00'', ''R = 03'', ''Result = P (0 )'']"]
  note b = section_record_checked [where c = P256 and env = env_boring and f = SHA256
      and body = "[field_line [] []]" and st = vectors_init and ?st2.0 = vectors_section
      and m = "''00''" and qx = "''01''" and qy = "''02''" and r = "''03''" and s = "''04''"
      and msg = "[]" and vx = 0 and vy = 0 and vr = 0 and vs = 0
      and x = "CHR ''P''" and rest = "'' (0 )''" and others = "[]" and eof = True
      and cn = "''P-192''" and hn = "''SHA-1''" and contents = "[]"]
  note c = section_record_checked [where c = P256 and env = env_reject and f = SHA256
      and body = "[]" and st = vectors_init and ?st2.0 = vectors_section
      and others = "[]" and eof = True
      and cn = "''P-192''" and hn = "''SHA-1''"
      and contents = "[''Msg = 00'', ''R = 03'', ''Result = P (0 )'']"]
  have n: "field_line [] [] \<noteq> [] \<and> hd (field_line [] []) \<noteq> CHR ''[''"
    by (simp add: field_line_def)
  from a n have 1: "TestVectors_loop env_plain vectors_section
     (record_lines ''00'' ''01'' ''02'' ''03'' ''04'' ''P (0 )'') True =
     Proceed (vectors_section\<lparr>tv_lineNo := 9, tv_msg := [],
       tv_pub := \<lparr>Curve = Some P256, X = Some 0, Y = Some 0\<rparr>,
       tv_r := Some 0, tv_s := Some 0\<rparr>)"
    by (simp add: env_sel vectors_section_reached vectors_section_sel record_verdict_def
        del: TestVectors_loop.simps(2))
  from b n have 2: "TestVectors_loop env_boring vectors_section
     (record_lines ''00'' ''01'' ''02'' ''03'' ''04'' ''P (0 )'') True =
     Fatalf ''incorrect result on line 9''"
    by (simp add: env_sel vectors_section_reached vectors_section_sel record_verdict_def Itoa_9
        del: TestVectors_loop.simps(2))
  from c have 3: "TestVectors_loop env_reject vectors_init
     (section_header ''P-192'' ''SHA-1'' #
      map (field_line []) [''Msg = 00'', ''R = 03'', ''Result = P (0 )'']) True =
     Proceed (vectors_init\<lparr>tv_lineNo := 5, tv_h := Some SHA1, tv_ch := crypto_SHA1\<rparr>)"
    by (simp add: env_sel unknown_names vectors_init_def del: TestVectors_loop.simps(2))
  from 1 2 3 vectors_section_reached(1) show ?thesis
    by blast
qed

section \<open>Properties of the release script\<close>

lemma determine_no_build:
  "determine run args = (t, r) \<Longrightarrow> filter builds_or_publishes t = []"
  by (auto simp add: determine_def Let_def builds_or_publishes_def split: if_splits)

lemma determine_shell_released:
  "determine shell_released [] =
     ([Ran (GitRevParse ''HEAD''), Ran (GitLogTag ''HEAD''), Ran (GitShowVersion ''0123456789ab'')],
      Inr (''0123456789ab'', ''go1.12.1'', ''4''))"
  by (simp add: determine_def shell_released_def shell_ok_def Let_def)

text \<open>
  Claim C7. If the version the script computes (the base Go tag, \<^verbatim>\<open>b\<close>, the version
  of the cryptographic module) is found at the start of a line of \<^verbatim>\<open>RELEASES\<close>, that is,
  \<^verbatim>\<open>grep "^$version " RELEASES\<close> succeeds, the script exits with status 2 after the
  message that it does not release again, and has run no command that builds, publishes
  or records a release.
\<close>
theorem released_version_not_rebuilt:
  assumes "release_version run args = Some version"
    and "fst (run (GrepReleases (''^'' @ version @ '' ''))) = 0"
  shows "snd (build_release run args) = 2 \<and>
     filter builds_or_publishes (fst (build_release run args)) = [] \<and>
     last (fst (build_release run args)) =
       Stderr (''found '' @ version @ '' in RELEASES - not rereleasing'')"
proof -
  from assms(1) obtain t commit base_tag boring_version
    where d: "determine run args = (t, Inr (commit, base_tag, boring_version))"
      and v: "version = base_tag @ ''b'' @ boring_version"
    by (auto simp add: release_version_def split: prod.splits sum.splits)
  from d have "filter builds_or_publishes t = []"
    by (rule determine_no_build)
  with d v assms(2) show ?thesis
    by (simp add: build_release_def builds_or_publishes_def)
qed

theorem released_version_not_rebuilt_witness:
  "release_version shell_released [] = Some ''go1.12.1b4'' \<and>
   fst (shell_released (GrepReleases (''^'' @ ''go1.12.1b4'' @ '' ''))) = 0 \<and>
   build_release shell_released [] =
     ([Ran (GitRevParse ''HEAD''), Ran (GitLogTag ''HEAD''), Ran (GitShowVersion ''0123456789ab''),
       Ran (GrepReleases ''^go1.12.1b4 ''),
       Stderr ''found go1.12.1b4 in RELEASES - not rereleasing''], 2)"
proof -
  have v: "release_version shell_released [] = Some ''go1.12.1b4''"
    by (simp add: release_version_def determine_shell_released)
  have g: "fst (shell_released (GrepReleases (''^'' @ ''go1.12.1b4'' @ '' ''))) = 0"
    by (simp add: shell_released_def)
  have b: "build_release shell_released [] =
     ([Ran (GitRevParse ''HEAD''), Ran (GitLogTag ''HEAD''), Ran (GitShowVersion ''0123456789ab''),
       Ran (GrepReleases ''^go1.12.1b4 ''),
       Stderr ''found go1.12.1b4 in RELEASES - not rereleasing''], 2)"
    by (simp add: build_release_def determine_shell_released shell_released_def)
  from released_version_not_rebuilt [OF v g] v g b show ?thesis by simp
qed

text \<open>
  With a new version and every command succeeding, the script runs its nine building and
  publishing commands and exits with status 0.
\<close>
lemma build_release_shell_ok:
  "snd (build_release shell_ok []) = 0 \<and>
   length (filter builds_or_publishes (fst (build_release shell_ok []))) = 9"
  by (simp add: build_release_def determine_def build_and_publish_def shell_ok_def Let_def
      checked_def sha_def builds_or_publishes_def)

end
